theory Spec2Isabelle
  imports Complex_Main "HOL-Library.Word" "HOL-Library.Monad_Syntax"
begin

unbundle bit_operations_syntax

section \<open>Data model of \<open>hooks/iching.ts\<close>\<close>

text \<open>
  A thrown JavaScript exception is the value \<open>None\<close>: every function that can throw
  returns an \<open>option\<close>, and \<open>main\<close> is the only place that catches.
  The entropy source is an explicit supply of bytes that \<open>randomBytes\<close> consumes from
  the front; a supply that runs dry is the platform's entropy call failing.
\<close>

type_synonym byte = "8 word"

datatype Style = DX | TU | EN | TE | W

datatype DerivedType = Nuclear | Shadow | Mirror | Becoming

text \<open>One cast line: \<open>lvalue\<close> is the field \<open>value\<close> of the source.\<close>

record Line =
  lvalue :: nat
  isYang :: bool
  isChanging :: bool

record Cast =
  cast_lines :: "Line list"
  cast_primary :: nat
  cast_becoming :: "nat option"
  cast_changingPositions :: "nat list"
  cast_nuclear :: nat
  cast_shadow :: nat
  cast_mirror :: nat

text \<open>
  One entry of the table \<open>GUA\<close>; the fields \<open>u n p l dx tu en te w\<close> of the source
  carry the prefix \<open>gua_\<close>. Strings are UTF-8 byte sequences.
\<close>

record Hexagram =
  gua_u :: string
  gua_n :: string
  gua_p :: string
  gua_l :: "nat list"
  gua_dx :: string
  gua_tu :: string
  gua_en :: string
  gua_te :: string
  gua_w :: string

record DailyCache =
  cache_date :: string
  cache_cast :: Cast
  cache_shown :: bool

record HistoryEntry =
  entry_date :: string
  entry_cast :: Cast

section \<open>Static tables\<close>

definition BINARY_TO_KW :: "nat list" where
  "BINARY_TO_KW =
    [2, 24, 7, 19, 15, 36, 46, 11, 16, 51, 40, 54, 62, 55, 32, 34, 8, 3, 29, 60,
     39, 63, 48, 5, 45, 17, 47, 58, 31, 49, 28, 43, 23, 27, 4, 41, 52, 22, 18, 26,
     35, 21, 64, 38, 56, 30, 50, 14, 20, 42, 59, 61, 53, 37, 57, 9, 12, 25, 6, 10,
     33, 13, 44, 1]"

text \<open>
  The column \<open>l\<close> of \<open>GUA\<close>, entry by entry. The commentary columns of \<open>GUA\<close> are
  text only; the functions that print take the table as their argument \<open>G\<close>.
\<close>

definition GUA_l :: "nat list list" where
  "GUA_l =
    [[1, 1, 1, 1, 1, 1], [0, 0, 0, 0, 0, 0], [1, 0, 0, 0, 1, 0], [0, 1, 0, 0, 0, 1],
     [1, 1, 1, 0, 1, 0], [0, 1, 0, 1, 1, 1], [0, 1, 0, 0, 0, 0], [0, 0, 0, 0, 1, 0],
     [1, 1, 1, 0, 1, 1], [1, 1, 0, 1, 1, 1], [1, 1, 1, 0, 0, 0], [0, 0, 0, 1, 1, 1],
     [1, 0, 1, 1, 1, 1], [1, 1, 1, 1, 0, 1], [0, 0, 1, 0, 0, 0], [0, 0, 0, 1, 0, 0],
     [1, 0, 0, 1, 1, 0], [0, 1, 1, 0, 0, 1], [1, 1, 0, 0, 0, 0], [0, 0, 0, 0, 1, 1],
     [1, 0, 0, 1, 0, 1], [1, 0, 1, 0, 0, 1], [0, 0, 0, 0, 0, 1], [1, 0, 0, 0, 0, 0],
     [1, 0, 0, 1, 1, 1], [1, 1, 1, 0, 0, 1], [1, 0, 0, 0, 0, 1], [0, 1, 1, 1, 1, 0],
     [0, 1, 0, 0, 1, 0], [1, 0, 1, 1, 0, 1], [0, 0, 1, 1, 1, 0], [0, 1, 1, 1, 0, 0],
     [0, 0, 1, 1, 1, 1], [1, 1, 1, 1, 0, 0], [0, 0, 0, 1, 0, 1], [1, 0, 1, 0, 0, 0],
     [1, 0, 1, 0, 1, 1], [1, 1, 0, 1, 0, 1], [0, 0, 1, 0, 1, 0], [0, 1, 0, 1, 0, 0],
     [1, 1, 0, 0, 0, 1], [1, 0, 0, 0, 1, 1], [1, 1, 1, 1, 1, 0], [0, 1, 1, 1, 1, 1],
     [0, 0, 0, 1, 1, 0], [0, 1, 1, 0, 0, 0], [0, 1, 0, 1, 1, 0], [0, 1, 1, 0, 1, 0],
     [1, 0, 1, 1, 1, 0], [0, 1, 1, 1, 0, 1], [1, 0, 0, 1, 0, 0], [0, 0, 1, 0, 0, 1],
     [0, 0, 1, 0, 1, 1], [1, 1, 0, 1, 0, 0], [1, 0, 1, 1, 0, 0], [0, 0, 1, 1, 0, 1],
     [0, 1, 1, 0, 1, 1], [1, 1, 0, 1, 1, 0], [0, 1, 0, 0, 1, 1], [1, 1, 0, 0, 1, 0],
     [1, 1, 0, 0, 1, 1], [0, 0, 1, 1, 0, 0], [1, 0, 1, 0, 1, 0], [0, 1, 0, 1, 0, 1]]"

definition STYLES :: "Style list" where
  "STYLES = [DX, TU, EN, TE, W]"

definition EM_DASH :: string where
  "EM_DASH = [CHR 0xE2, CHR 0x80, CHR 0x94]"

definition ARROW :: string where
  "ARROW = [CHR 0xE2, CHR 0x86, CHR 0x92]"

definition ZONG_GUA :: string where
  "ZONG_GUA = [CHR 0xE7, CHR 0xB6, CHR 0x9C, CHR 0xE5, CHR 0x8D, CHR 0xA6]"

definition ZI_ZONG :: string where
  "ZI_ZONG = [CHR 0xE8, CHR 0x87, CHR 0xAA, CHR 0xE7, CHR 0xB6, CHR 0x9C]"

fun DERIVED_LABELS :: "DerivedType \<Rightarrow> string" where
  "DERIVED_LABELS Nuclear =
     [CHR 0xE4, CHR 0xBA, CHR 0x92, CHR 0xE5, CHR 0x8D, CHR 0xA6] @ '' (hidden within)''"
| "DERIVED_LABELS Shadow =
     [CHR 0xE9, CHR 0x8C, CHR 0xAF, CHR 0xE5, CHR 0x8D, CHR 0xA6] @ '' (shadow)''"
| "DERIVED_LABELS Mirror = ZONG_GUA @ '' (mirror)''"
| "DERIVED_LABELS Becoming =
     [CHR 0xE4, CHR 0xB9, CHR 0x8B, CHR 0xE5, CHR 0x8D, CHR 0xA6] @ '' (becoming)''"

section \<open>Casting\<close>

definition randomBytes :: "nat \<Rightarrow> byte list \<Rightarrow> (byte list \<times> byte list) option" where
  "randomBytes k ent = (if k \<le> length ent then Some (take k ent, drop k ent) else None)"

text \<open>\<open>xs[i]\<close> of a JavaScript array: \<open>undefined\<close> (here \<open>None\<close>) out of range.\<close>

definition at_index :: "'a list \<Rightarrow> nat \<Rightarrow> 'a option" where
  "at_index xs i = (if i < length xs then Some (xs ! i) else None)"

definition castLine :: "byte list \<Rightarrow> (Line \<times> byte list) option" where
  "castLine ent = do {
     (bytes, ent') \<leftarrow> randomBytes 3 ent;
     let coins = [bytes ! 0 AND 1, bytes ! 1 AND 1, bytes ! 2 AND 1];
     let mapped = map (\<lambda>c. if c \<noteq> 0 then 3 else (2::nat)) coins;
     let sum = foldl (+) (hd mapped) (tl mapped);
     Some (\<lparr>lvalue = sum, isYang = (sum = 7 \<or> sum = 9), isChanging = (sum = 6 \<or> sum = 9)\<rparr>, ent')
   }"

text \<open>
  The loop body of \<open>linesToBinary\<close> at index \<open>i\<close>: reading \<open>isYang\<close> of an
  \<open>undefined\<close> element throws.
\<close>

definition linesToBinary_step :: "Line list \<Rightarrow> nat \<Rightarrow> nat option \<Rightarrow> nat option" where
  "linesToBinary_step lines i acc = do {
     binary \<leftarrow> acc;
     line \<leftarrow> at_index lines i;
     Some (if isYang line then binary OR push_bit i 1 else binary)
   }"

definition linesToBinary :: "Line list \<Rightarrow> nat option" where
  "linesToBinary lines = fold (linesToBinary_step lines) [0..<6] (Some 0)"

section \<open>Derived hexagrams\<close>

text \<open>
  On six lines \<open>linesToBinary\<close> returns a value below 64 (lemma
  \<open>linesToBinary_total\<close> below), so the reads \<open>BINARY_TO_KW[binary]\<close> of a casting are
  inside the table.
\<close>

definition nuclear :: "Line list \<Rightarrow> nat option" where
  "nuclear lines = do {
     l1 \<leftarrow> at_index lines 1;
     l2 \<leftarrow> at_index lines 2;
     l3 \<leftarrow> at_index lines 3;
     l4 \<leftarrow> at_index lines 4;
     binary \<leftarrow> linesToBinary [l1, l2, l3, l2, l3, l4];
     Some (BINARY_TO_KW ! binary)
   }"

definition shadow :: "Line list \<Rightarrow> nat option" where
  "shadow lines = do {
     let inverted = map (\<lambda>l. l\<lparr>isYang := \<not> isYang l\<rparr>) lines;
     binary \<leftarrow> linesToBinary inverted;
     Some (BINARY_TO_KW ! binary)
   }"

definition mirror :: "Line list \<Rightarrow> nat option" where
  "mirror lines = do {
     binary \<leftarrow> linesToBinary (rev lines);
     Some (BINARY_TO_KW ! binary)
   }"

text \<open>The \<open>for\<close> loop of \<open>castHexagram\<close>: \<open>k\<close> calls of \<open>castLine\<close>, pushed in order.\<close>

fun castLines :: "nat \<Rightarrow> byte list \<Rightarrow> (Line list \<times> byte list) option" where
  "castLines 0 ent = Some ([], ent)"
| "castLines (Suc k) ent = do {
     (line, ent1) \<leftarrow> castLine ent;
     (rest, ent2) \<leftarrow> castLines k ent1;
     Some (line # rest, ent2)
   }"

definition castHexagram :: "byte list \<Rightarrow> (Cast \<times> byte list) option" where
  "castHexagram ent = do {
     (lines, ent') \<leftarrow> castLines 6 ent;
     primaryBinary \<leftarrow> linesToBinary lines;
     let primary = BINARY_TO_KW ! primaryBinary;
     let hasChanging = list_ex isChanging lines;
     (becoming, changingPositions) \<leftarrow>
       (if hasChanging then do {
          let becomingLines =
            map (\<lambda>l. l\<lparr>isYang := (if isChanging l then \<not> isYang l else isYang l)\<rparr>) lines;
          becomingBinary \<leftarrow> linesToBinary becomingLines;
          Some (Some (BINARY_TO_KW ! becomingBinary),
                map (\<lambda>i. i + 1) (filter (\<lambda>i. isChanging (lines ! i)) [0..<length lines]))
        } else Some (None, []));
     nu \<leftarrow> nuclear lines;
     sh \<leftarrow> shadow lines;
     mi \<leftarrow> mirror lines;
     Some (\<lparr>cast_lines = lines, cast_primary = primary, cast_becoming = becoming,
            cast_changingPositions = changingPositions,
            cast_nuclear = nu, cast_shadow = sh, cast_mirror = mi\<rparr>, ent')
   }"

section \<open>Formatting\<close>

text \<open>\<open>GUA[kw - 1]\<close>: \<open>undefined\<close> for \<open>kw = 0\<close> and beyond the table.\<close>

definition gua_at :: "Hexagram list \<Rightarrow> nat \<Rightarrow> Hexagram option" where
  "gua_at G kw = (if 1 \<le> kw then at_index G (kw - 1) else None)"

fun style_text :: "Hexagram \<Rightarrow> Style \<Rightarrow> string" where
  "style_text g DX = gua_dx g"
| "style_text g TU = gua_tu g"
| "style_text g EN = gua_en g"
| "style_text g TE = gua_te g"
| "style_text g W = gua_w g"

text \<open>Decimal rendering of a number, and \<open>Array.prototype.join(",")\<close>.\<close>

fun show_nat :: "nat \<Rightarrow> string" where
  "show_nat n =
     (if n < 10 then [char_of (48 + n)] else show_nat (n div 10) @ [char_of (48 + n mod 10)])"

declare show_nat.simps [simp del]

fun join_comma :: "string list \<Rightarrow> string" where
  "join_comma [] = []"
| "join_comma [x] = x"
| "join_comma (x # y # ys) = x @ '','' @ join_comma (y # ys)"

text \<open>
  The rejection loop of \<open>getRandomStyle\<close>: each round draws one byte; a supply with no
  byte below 250 ends in the entropy failure.
\<close>

fun getRandomStyle :: "byte list \<Rightarrow> (Style \<times> byte list) option" where
  "getRandomStyle [] = None"
| "getRandomStyle (b # ent) =
     (if 250 \<le> unat b then getRandomStyle ent else Some (STYLES ! (unat b mod 5), ent))"

definition formatReading :: "Hexagram list \<Rightarrow> Cast \<Rightarrow> Style \<Rightarrow> string option" where
  "formatReading G cast style = do {
     g \<leftarrow> gua_at G (cast_primary cast);
     let out = gua_u g @ '' '' @ gua_n g @ '' ('' @ gua_p g @ '') '' @ EM_DASH @ '' ''
               @ style_text g style;
     (case cast_becoming cast of
        None \<Rightarrow> Some out
      | Some b \<Rightarrow> do {
          t \<leftarrow> gua_at G b;
          Some (out @ '' '' @ ARROW @ '' '' @ gua_u t @ '' '' @ gua_n t @ '' [''
                @ join_comma (map show_nat (cast_changingPositions cast)) @ '']'')
        })
   }"

definition derived_kw :: "Cast \<Rightarrow> DerivedType \<Rightarrow> nat option" where
  "derived_kw cast ty =
     (case ty of
        Becoming \<Rightarrow> cast_becoming cast
      | Nuclear \<Rightarrow> Some (cast_nuclear cast)
      | Shadow \<Rightarrow> Some (cast_shadow cast)
      | Mirror \<Rightarrow> Some (cast_mirror cast))"

definition formatDerived ::
  "Hexagram list \<Rightarrow> Cast \<Rightarrow> DerivedType \<Rightarrow> byte list \<Rightarrow> (string \<times> byte list) option" where
  "formatDerived G cast ty ent =
     (if ty = Mirror \<and> cast_mirror cast = cast_primary cast then do {
        (bytes, ent1) \<leftarrow> randomBytes 1 ent;
        let tag = (if unat (bytes ! 0) < 128 then ZI_ZONG else ''self-mirroring'');
        g \<leftarrow> gua_at G (cast_primary cast);
        (style, ent2) \<leftarrow> getRandomStyle ent1;
        Some (ZONG_GUA @ '' ('' @ tag @ '') '' @ gua_u g @ '' '' @ gua_n g @ '' ('' @ gua_p g
              @ '') '' @ EM_DASH @ '' '' @ style_text g style, ent2)
      } else
        (case derived_kw cast ty of
           None \<Rightarrow> Some ([], ent)
         | Some kwNum \<Rightarrow> do {
             g \<leftarrow> gua_at G kwNum;
             (style, ent1) \<leftarrow> getRandomStyle ent;
             Some (DERIVED_LABELS ty @ '' '' @ gua_u g @ '' '' @ gua_n g @ '' ('' @ gua_p g
                   @ '') '' @ EM_DASH @ '' '' @ style_text g style, ent1)
           }))"

section \<open>Cache, history and \<open>main\<close>\<close>

text \<open>
  The file \<open>~/.claude/iching.json\<close> is one of:
  \<^item> \<open>Absent\<close>: there is no file;
  \<^item> \<open>Malformed\<close>: the file is there and its content is not JSON (an empty or truncated
    file, say), so \<open>file.json()\<close> throws;
  \<^item> \<open>NonRecord\<close>: the content is JSON and the value has no \<open>date\<close> property: \<open>null\<close>, a
    number, a string, an array, \<open>{}\<close>, an object without \<open>date\<close>;
  \<^item> \<open>Stored c\<close>: the content is a record with a \<open>date\<close>, taken at its declared type
    \<open>DailyCache\<close>.

  The history file is the list of its lines.
\<close>

datatype CacheFile = Absent | Malformed | NonRecord | Stored DailyCache

record Store =
  cache_file :: CacheFile
  history :: "HistoryEntry list"

record Outcome =
  store :: Store
  stdout :: "string option"
  exit_code :: nat

definition appendToHistory :: "DailyCache \<Rightarrow> Store \<Rightarrow> Store" where
  "appendToHistory cache st =
     st\<lparr>history := history st @ [\<lparr>entry_date = cache_date cache, entry_cast = cache_cast cache\<rparr>]\<rparr>"

text \<open>
  The number literals of the reveal chain, as the binary64 values they denote. The draw
  \<open>r = byte / 256\<close> is exact in binary64, so each comparison of the source is the
  comparison of these rationals.
\<close>

definition T_0_04 :: rat where "T_0_04 = 5764607523034235 / 2 ^ 57"
definition T_0_08 :: rat where "T_0_08 = 5764607523034235 / 2 ^ 56"
definition T_0_12 :: rat where "T_0_12 = 1080863910568919 / 2 ^ 53"
definition T_0_16 :: rat where "T_0_16 = 5764607523034235 / 2 ^ 55"
definition T_0_2 :: rat where "T_0_2 = 3602879701896397 / 2 ^ 54"
definition T_0_225 :: rat where "T_0_225 = 8106479329266893 / 2 ^ 55"
definition T_0_25 :: rat where "T_0_25 = 1 / 4"
definition T_0_275 :: rat where "T_0_275 = 2476979795053773 / 2 ^ 53"
definition T_0_3 :: rat where "T_0_3 = 5404319552844595 / 2 ^ 54"

text \<open>Which branch of the reveal chain a selection byte takes.\<close>

datatype Action = ShowReading Style | ShowDerived DerivedType | Silent

definition select_action :: "byte \<Rightarrow> Action" where
  "select_action b =
     (let r = of_nat (unat b) / 256 in
      if r < T_0_04 then ShowReading DX
      else if r < T_0_08 then ShowReading TU
      else if r < T_0_12 then ShowReading EN
      else if r < T_0_16 then ShowReading TE
      else if r < T_0_2 then ShowReading W
      else if r < T_0_225 then ShowDerived Nuclear
      else if r < T_0_25 then ShowDerived Shadow
      else if r < T_0_275 then ShowDerived Mirror
      else if r < T_0_3 then ShowDerived Becoming
      else Silent)"

text \<open>
  The \<open>else\<close> branch of \<open>main\<close> (record already shown): the value of \<open>out\<close>, where
  \<open>None\<close> inside is \<open>null\<close>.
\<close>

definition reveal :: "Hexagram list \<Rightarrow> Cast \<Rightarrow> byte list \<Rightarrow> string option option" where
  "reveal G cast ent = do {
     (bytes, ent1) \<leftarrow> randomBytes 1 ent;
     (case select_action (bytes ! 0) of
        ShowReading style \<Rightarrow> do { out \<leftarrow> formatReading G cast style; Some (Some out) }
      | ShowDerived Becoming \<Rightarrow> do {
          (t, ent2) \<leftarrow> formatDerived G cast Becoming ent1;
          Some (if t \<noteq> [] then Some t else None)
        }
      | ShowDerived ty \<Rightarrow> do { (t, ent2) \<leftarrow> formatDerived G cast ty ent1; Some (Some t) }
      | Silent \<Rightarrow> Some None)
   }"

text \<open>
  \<open>file.exists() ? file.json() : null\<close>; the outer \<open>None\<close> is \<open>json()\<close> throwing. The
  inner \<open>None\<close> is the value of \<open>cache\<close> when it carries no date: \<open>null\<close> for a missing
  file, and any parsed value without a \<open>date\<close> property. For each of them
  \<open>!cache || cache.date !== date\<close> holds (\<open>cache.date\<close> is \<open>undefined\<close>) and
  \<open>cache?.date\<close> is falsy, which is all that \<open>main\<close> reads of such a value.
\<close>

definition load_cache :: "Store \<Rightarrow> DailyCache option option" where
  "load_cache st =
     (case cache_file st of
        Absent \<Rightarrow> Some None
      | Malformed \<Rightarrow> None
      | NonRecord \<Rightarrow> Some None
      | Stored c \<Rightarrow> Some (Some c))"

definition fresh_record :: "string \<Rightarrow> byte list \<Rightarrow> (DailyCache \<times> byte list) option" where
  "fresh_record date ent = do {
     (cast, ent1) \<leftarrow> castHexagram ent;
     Some (\<lparr>cache_date = date, cache_cast = cast, cache_shown = False\<rparr>, ent1)
   }"

text \<open>
  The block \<open>New day = new casting\<close>: the store after the history append, and the
  record to go on with (\<open>None\<close> when the casting threw).
\<close>

definition new_day ::
  "string \<Rightarrow> byte list \<Rightarrow> DailyCache option \<Rightarrow> Store \<Rightarrow> Store \<times> (DailyCache \<times> byte list) option" where
  "new_day date ent cache st =
     (case cache of
        None \<Rightarrow> (st, fresh_record date ent)
      | Some c \<Rightarrow>
          if cache_date c \<noteq> date then
            ((if cache_date c \<noteq> [] \<and> cache_date c \<noteq> date then appendToHistory c st else st),
             fresh_record date ent)
          else (st, Some (c, ent)))"

definition show_or_reveal ::
  "Hexagram list \<Rightarrow> DailyCache \<Rightarrow> byte list \<Rightarrow> (string option \<times> DailyCache) option" where
  "show_or_reveal G cache ent =
     (if \<not> cache_shown cache then do {
        out \<leftarrow> formatReading G (cache_cast cache) DX;
        Some (Some out, cache\<lparr>cache_shown := True\<rparr>)
      } else do {
        out \<leftarrow> reveal G (cache_cast cache) ent;
        Some (out, cache)
      })"

text \<open>
  The \<open>try\<close> block of \<open>main\<close>. \<open>stdin_json\<close> says whether the payload on standard
  input parses as JSON, \<open>date\<close> is \<open>today()\<close>. The result is the store as the block
  leaves it, and \<open>None\<close> when the block threw or \<open>Some out\<close> when it reached
  \<open>Bun.write\<close>.
\<close>

definition main_try ::
  "Hexagram list \<Rightarrow> bool \<Rightarrow> string \<Rightarrow> byte list \<Rightarrow> Store \<Rightarrow> Store \<times> string option option" where
  "main_try G stdin_json date ent st =
     (if \<not> stdin_json then (st, None)
      else
        (case load_cache st of
           None \<Rightarrow> (st, None)
         | Some cache0 \<Rightarrow>
             (case new_day date ent cache0 st of
                (st1, None) \<Rightarrow> (st1, None)
              | (st1, Some (cache, ent1)) \<Rightarrow>
                  (case show_or_reveal G cache ent1 of
                     None \<Rightarrow> (st1, None)
                   | Some (out, cache') \<Rightarrow> (st1\<lparr>cache_file := Stored cache'\<rparr>, Some out)))))"

text \<open>\<open>main\<close>: an exception ends in \<open>process.exit(0)\<close> with nothing printed.\<close>

definition main :: "Hexagram list \<Rightarrow> bool \<Rightarrow> string \<Rightarrow> byte list \<Rightarrow> Store \<Rightarrow> Outcome" where
  "main G stdin_json date ent st =
     (case main_try G stdin_json date ent st of
        (st', None) \<Rightarrow> \<lparr>store = st', stdout = None, exit_code = 0\<rparr>
      | (st', Some out) \<Rightarrow>
          \<lparr>store = st',
           stdout = (case out of None \<Rightarrow> None | Some s \<Rightarrow> if s \<noteq> [] then Some s else None),
           exit_code = 0\<rparr>)"

section \<open>Verification of the table\<close>

text \<open>
  The index that \<open>verifyBinaryTable\<close> computes from a stored line pattern, and the
  identifiers for which it reports an error.
\<close>

definition gua_index :: "nat list \<Rightarrow> nat" where
  "gua_index ls =
     (let lower = ls ! 0 + ls ! 1 * 2 + ls ! 2 * 4;
          upper = ls ! 3 + ls ! 4 * 2 + ls ! 5 * 4
      in lower + upper * 8)"

definition verifyBinaryTable :: "nat list" where
  "verifyBinaryTable =
     filter (\<lambda>kw. BINARY_TO_KW ! gua_index (GUA_l ! (kw - 1)) \<noteq> kw) [1..<65]"

section \<open>Notions used by the properties\<close>

text \<open>
  The six lines of the hexagram with identifier \<open>kw\<close>, read from \<open>GUA[kw - 1].l\<close> as
  stable lines (7 for yang, 8 for yin). The derived identifiers of a cast depend on the
  polarities of its lines only, so these lines stand for every cast with primary \<open>kw\<close>.
\<close>

definition stable_line :: "nat \<Rightarrow> Line" where
  "stable_line v =
     (if v = 1 then \<lparr>lvalue = 7, isYang = True, isChanging = False\<rparr>
      else \<lparr>lvalue = 8, isYang = False, isChanging = False\<rparr>)"

definition hexLines :: "nat \<Rightarrow> Line list" where
  "hexLines kw = map stable_line (GUA_l ! (kw - 1))"

text \<open>
  The nuclear construction as the specification words it: the new sequence takes the
  1-indexed positions 2, 3, 4, 2, 3, 4 of the original.
\<close>

definition nuclear_spec :: "Line list \<Rightarrow> nat option" where
  "nuclear_spec lines = do {
     l1 \<leftarrow> at_index lines 1;
     l2 \<leftarrow> at_index lines 2;
     l3 \<leftarrow> at_index lines 3;
     binary \<leftarrow> linesToBinary [l1, l2, l3, l1, l2, l3];
     Some (BINARY_TO_KW ! binary)
   }"

text \<open>The identifiers whose mirror equals their shadow, and those that mirror to themselves.\<close>

definition lockedPairIds :: "nat list" where
  "lockedPairIds = filter (\<lambda>x. mirror (hexLines x) = shadow (hexLines x)) [1..<65]"

definition selfMirroringIds :: "nat list" where
  "selfMirroringIds = filter (\<lambda>x. mirror (hexLines x) = Some x) [1..<65]"

text \<open>The 256 values of a byte, the 8 parity patterns of three bytes, and counting over them.\<close>

definition all_bytes :: "byte list" where
  "all_bytes = map of_nat [0..<256]"

definition parity_triples :: "byte list list" where
  "parity_triples =
     [[0, 0, 0], [1, 0, 0], [0, 1, 0], [1, 1, 0], [0, 0, 1], [1, 0, 1], [0, 1, 1], [1, 1, 1]]"

definition line_count :: "nat \<Rightarrow> nat" where
  "line_count v =
     length (filter (\<lambda>t. map_option (\<lambda>r. lvalue (fst r)) (castLine t) = Some v) parity_triples)"

definition band_count :: "Action \<Rightarrow> nat" where
  "band_count a = length (filter (\<lambda>b. select_action b = a) all_bytes)"

definition band_probability :: "Action \<Rightarrow> rat" where
  "band_probability a = of_nat (band_count a) / 256"

text \<open>The branch of the reveal chain by the numeric value of the selection byte.\<close>

definition band_table :: "nat \<Rightarrow> Action" where
  "band_table n =
     (if n \<le> 10 then ShowReading DX
      else if n \<le> 20 then ShowReading TU
      else if n \<le> 30 then ShowReading EN
      else if n \<le> 40 then ShowReading TE
      else if n \<le> 51 then ShowReading W
      else if n \<le> 57 then ShowDerived Nuclear
      else if n \<le> 63 then ShowDerived Shadow
      else if n \<le> 70 then ShowDerived Mirror
      else if n \<le> 76 then ShowDerived Becoming
      else Silent)"

text \<open>Concrete data for the examples.\<close>

definition example_lines :: "Line list" where
  "example_lines = map stable_line [1, 0, 0, 0, 1, 0]"

definition example_entropy :: "byte list" where
  "example_entropy = [1, 0, 0,  0, 0, 0,  0, 0, 0,  0, 0, 0,  1, 0, 0,  0, 0, 0,  77]"

definition example_GUA :: "Hexagram list" where
  "example_GUA =
     map (\<lambda>ls. \<lparr>gua_u = ''U'', gua_n = ''N'', gua_p = ''P'', gua_l = ls, gua_dx = ''dx'',
                gua_tu = ''tu'', gua_en = ''en'', gua_te = ''te'', gua_w = ''w''\<rparr>) GUA_l"

definition example_cast :: Cast where
  "example_cast =
     \<lparr>cast_lines = example_lines, cast_primary = 3, cast_becoming = None,
      cast_changingPositions = [], cast_nuclear = 23, cast_shadow = 50, cast_mirror = 4\<rparr>"

definition example_old :: DailyCache where
  "example_old = \<lparr>cache_date = ''2026-11-02'', cache_cast = example_cast, cache_shown = True\<rparr>"

definition example_store :: Store where
  "example_store = \<lparr>cache_file = Stored example_old, history = []\<rparr>"


definition undated_store :: Store where
  "undated_store = \<lparr>cache_file = Stored (example_old\<lparr>cache_date := []\<rparr>), history = []\<rparr>"

definition malformed_store :: Store where
  "malformed_store = \<lparr>cache_file = Malformed, history = []\<rparr>"

definition absent_store :: Store where
  "absent_store = \<lparr>cache_file = Absent, history = []\<rparr>"

definition nonrecord_store :: Store where
  "nonrecord_store = \<lparr>cache_file = NonRecord, history = []\<rparr>"

section \<open>Properties\<close>

subsection \<open>Encoding and the table\<close>

lemma upt_6: "[0..<6] = [0, 1, 2, 3, 4, 5::nat]"
  by (simp add: upt_rec)

lemma linesToBinary_six:
  "linesToBinary [a, b, c, d, e, f] =
     Some (of_bool (isYang a) + 2 * of_bool (isYang b) + 4 * of_bool (isYang c)
         + 8 * of_bool (isYang d) + 16 * of_bool (isYang e) + 32 * of_bool (isYang f))"
  unfolding linesToBinary_def upt_6
  by (cases "isYang a"; cases "isYang b"; cases "isYang c"; cases "isYang d";
      cases "isYang e"; cases "isYang f")
     (simp_all add: linesToBinary_step_def at_index_def)

lemma BINARY_TO_KW_sorted: "sort BINARY_TO_KW = [1..<65]"
  by code_simp

lemma BINARY_TO_KW_length: "length BINARY_TO_KW = 64"
  by (simp add: BINARY_TO_KW_def)

lemma BINARY_TO_KW_set: "set BINARY_TO_KW = {1..64}"
proof -
  have "set BINARY_TO_KW = set (sort BINARY_TO_KW)" by simp
  also have "\<dots> = {1..<65}" unfolding BINARY_TO_KW_sorted by simp
  also have "\<dots> = {1..64}" by auto
  finally show ?thesis .
qed

lemma BINARY_TO_KW_distinct: "distinct BINARY_TO_KW"
proof -
  have "distinct (sort BINARY_TO_KW)" unfolding BINARY_TO_KW_sorted by simp
  then show ?thesis by simp
qed

lemma BINARY_TO_KW_range: "b < 64 \<Longrightarrow> 1 \<le> BINARY_TO_KW ! b \<and> BINARY_TO_KW ! b \<le> 64"
proof -
  assume "b < 64"
  then have "BINARY_TO_KW ! b \<in> set BINARY_TO_KW"
    by (simp add: BINARY_TO_KW_length)
  then show ?thesis unfolding BINARY_TO_KW_set by simp
qed

lemma GUA_l_rows: "list_all (\<lambda>ls. length ls = 6) GUA_l"
  by (simp add: GUA_l_def)

lemma verify_forward:
  "list_all (\<lambda>kw. BINARY_TO_KW ! gua_index (GUA_l ! (kw - 1)) = kw) [1..<65]"
  by code_simp

lemma verify_backward:
  "list_all (\<lambda>b. gua_index (GUA_l ! (BINARY_TO_KW ! b - 1)) = b) [0..<64]"
  by code_simp

text \<open>
  C2. \<open>BINARY_TO_KW\<close> is a bijection from the binary codes 0..63 onto the identifiers
  1..64; for every identifier, the index computed from its stored line pattern leads back
  to it through the table; for every binary code, the line pattern stored for its
  identifier encodes back to the code; \<open>verifyBinaryTable\<close> finds no error.
\<close>

theorem BINARY_TO_KW_bijection_roundtrip:
  "bij_betw (\<lambda>b. BINARY_TO_KW ! b) {0..<64} {1..64}
   \<and> (\<forall>kw\<in>{1..64}. BINARY_TO_KW ! gua_index (GUA_l ! (kw - 1)) = kw)
   \<and> (\<forall>b\<in>{0..<64}. gua_index (GUA_l ! (BINARY_TO_KW ! b - 1)) = b)
   \<and> verifyBinaryTable = []"
proof (intro conjI)
  show "bij_betw (\<lambda>b. BINARY_TO_KW ! b) {0..<64} {1..64}"
    by (rule bij_betw_nth [OF BINARY_TO_KW_distinct])
       (auto simp: BINARY_TO_KW_length BINARY_TO_KW_set)
  have "\<forall>kw\<in>set [1..<65]. BINARY_TO_KW ! gua_index (GUA_l ! (kw - 1)) = kw"
    using verify_forward unfolding list_all_iff .
  then show fw: "\<forall>kw\<in>{1..64}. BINARY_TO_KW ! gua_index (GUA_l ! (kw - 1)) = kw"
    by simp
  have "\<forall>b\<in>set [0..<64]. gua_index (GUA_l ! (BINARY_TO_KW ! b - 1)) = b"
    using verify_backward unfolding list_all_iff .
  then show "\<forall>b\<in>{0..<64}. gua_index (GUA_l ! (BINARY_TO_KW ! b - 1)) = b"
    by simp
  show "verifyBinaryTable = []"
    unfolding verifyBinaryTable_def filter_empty_conv using fw by simp
qed

theorem BINARY_TO_KW_bijection_roundtrip_witness:
  "(3::nat) \<in> {1..64} \<and> BINARY_TO_KW ! gua_index (GUA_l ! (3 - 1)) = 3
   \<and> (5::nat) \<in> {0..<64} \<and> gua_index (GUA_l ! (BINARY_TO_KW ! 5 - 1)) = 5
   \<and> gua_index (GUA_l ! (3 - 1)) = 17 \<and> BINARY_TO_KW ! 5 = 36"
proof -
  have a: "(3::nat) \<in> {1..64}" and b: "(5::nat) \<in> {0..<64}" by simp_all
  from BINARY_TO_KW_bijection_roundtrip
  have fw: "\<forall>kw\<in>{1..64}. BINARY_TO_KW ! gua_index (GUA_l ! (kw - 1)) = kw"
    and bw: "\<forall>b\<in>{0..<64}. gua_index (GUA_l ! (BINARY_TO_KW ! b - 1)) = b"
    by blast+
  have c: "gua_index (GUA_l ! (3 - 1)) = 17" by (simp add: gua_index_def GUA_l_def)
  have d: "BINARY_TO_KW ! 5 = 36" by (simp add: BINARY_TO_KW_def)
  from a b c d bspec [OF fw a] bspec [OF bw b] show ?thesis by blast
qed

subsection \<open>The nuclear hexagram\<close>

text \<open>
  C1, as the specification states it, fails: on the lines yang, yin, yin, yin, yang, yin
  (bottom to top) the code returns 23, the construction from positions 2, 3, 4, 2, 3, 4
  gives 2.
\<close>

theorem nuclear_counterexample:
  "length example_lines = 6 \<and> nuclear example_lines = Some 23
   \<and> nuclear_spec example_lines = Some 2
   \<and> nuclear example_lines \<noteq> nuclear_spec example_lines"
  by code_simp

text \<open>
  C1, amended. For every sequence of 6 lines, the nuclear identifier is the table entry
  at the 6-bit value of the sequence built from the 0-indexed lines 1, 2, 3, 2, 3, 4 of
  the original (1-indexed positions 2, 3, 4, 3, 4, 5).
\<close>

theorem nuclear_construction:
  assumes "length lines = 6"
  shows "\<exists>binary.
           linesToBinary [lines ! 1, lines ! 2, lines ! 3, lines ! 2, lines ! 3, lines ! 4]
             = Some binary
           \<and> binary = of_bool (isYang (lines ! 1)) + 2 * of_bool (isYang (lines ! 2))
                     + 4 * of_bool (isYang (lines ! 3)) + 8 * of_bool (isYang (lines ! 2))
                     + 16 * of_bool (isYang (lines ! 3)) + 32 * of_bool (isYang (lines ! 4))
           \<and> binary < 64
           \<and> nuclear lines = Some (BINARY_TO_KW ! binary)"
  using assms
  by (simp add: nuclear_def at_index_def linesToBinary_six)

theorem nuclear_construction_witness:
  "length example_lines = 6 \<and> nuclear example_lines = Some (BINARY_TO_KW ! 32)
   \<and> BINARY_TO_KW ! 32 = 23"
proof -
  have len: "length example_lines = 6" by (simp add: example_lines_def)
  have bits: "\<not> isYang (example_lines ! 1)" "\<not> isYang (example_lines ! 2)"
    "\<not> isYang (example_lines ! 3)" "isYang (example_lines ! 4)"
    by (simp_all add: example_lines_def stable_line_def)
  from nuclear_construction [OF len] bits
  have "nuclear example_lines = Some (BINARY_TO_KW ! 32)" by simp
  moreover have "BINARY_TO_KW ! 32 = 23" by (simp add: BINARY_TO_KW_def)
  ultimately show ?thesis using len by simp
qed

subsection \<open>Mirror and shadow on identifiers\<close>

text \<open>
  C3, as the specification states it, fails: 8 identifiers have their mirror equal to
  their shadow, not 4.
\<close>

theorem locked_pairs_counterexample:
  "lockedPairIds = [11, 12, 17, 18, 53, 54, 63, 64] \<and> length lockedPairIds \<noteq> 4"
  by code_simp

lemma lockedPairIds_eval: "lockedPairIds = [11, 12, 17, 18, 53, 54, 63, 64]"
  by code_simp

lemma locked_mirrors:
  "map (\<lambda>x. mirror (hexLines x)) [11, 12, 17, 18, 53, 54, 63, 64]
     = map Some [12, 11, 18, 17, 54, 53, 64, 63]"
  by code_simp

lemma locked_shadows:
  "map (\<lambda>x. shadow (hexLines x)) [11, 12, 17, 18, 53, 54, 63, 64]
     = map Some [12, 11, 18, 17, 54, 53, 64, 63]"
  by code_simp

text \<open>
  C3, amended. Exactly 8 of the 64 identifiers have their mirror equal to their shadow:
  11, 12, 17, 18, 53, 54, 63, 64. They form the 4 reciprocal pairs 11/12, 17/18, 53/54,
  63/64: mirror and shadow send each member to the other.
\<close>

theorem locked_pairs:
  "lockedPairIds = [11, 12, 17, 18, 53, 54, 63, 64]
   \<and> length lockedPairIds = 8
   \<and> map (\<lambda>x. mirror (hexLines x)) lockedPairIds = map Some [12, 11, 18, 17, 54, 53, 64, 63]
   \<and> map (\<lambda>x. shadow (hexLines x)) lockedPairIds = map Some [12, 11, 18, 17, 54, 53, 64, 63]"
  unfolding lockedPairIds_eval using locked_mirrors locked_shadows by simp

lemma mirror_twice:
  "list_all (\<lambda>x. case mirror (hexLines x) of None \<Rightarrow> False
                 | Some y \<Rightarrow> 1 \<le> y \<and> y \<le> 64 \<and> mirror (hexLines y) = Some x) [1..<65]"
  by code_simp

lemma selfMirroringIds_eval: "selfMirroringIds = [1, 2, 27, 28, 29, 30, 61, 62]"
  by code_simp

text \<open>
  C4. Mirror is an involution on the 64 identifiers, and exactly 8 identifiers are
  their own mirror: 1, 2, 27, 28, 29, 30, 61, 62.
\<close>

theorem mirror_involution:
  "(\<forall>x\<in>{1..64}. \<exists>y\<in>{1..64}. mirror (hexLines x) = Some y \<and> mirror (hexLines y) = Some x)
   \<and> selfMirroringIds = [1, 2, 27, 28, 29, 30, 61, 62]
   \<and> length selfMirroringIds = 8"
proof (intro conjI)
  have all: "\<forall>x\<in>set [1..<65]. case mirror (hexLines x) of None \<Rightarrow> False
                 | Some y \<Rightarrow> 1 \<le> y \<and> y \<le> 64 \<and> mirror (hexLines y) = Some x"
    using mirror_twice unfolding list_all_iff .
  show "\<forall>x\<in>{1..64}. \<exists>y\<in>{1..64}. mirror (hexLines x) = Some y \<and> mirror (hexLines y) = Some x"
  proof
    fix x :: nat
    assume "x \<in> {1..64}"
    then have "x \<in> set [1..<65]" by auto
    from bspec [OF all this]
    obtain y where "mirror (hexLines x) = Some y" "1 \<le> y" "y \<le> 64"
      "mirror (hexLines y) = Some x"
      by (auto split: option.splits)
    then show "\<exists>y\<in>{1..64}. mirror (hexLines x) = Some y \<and> mirror (hexLines y) = Some x"
      by auto
  qed
  show "selfMirroringIds = [1, 2, 27, 28, 29, 30, 61, 62]" by (rule selfMirroringIds_eval)
  show "length selfMirroringIds = 8" by (simp add: selfMirroringIds_eval)
qed

theorem mirror_involution_witness:
  "(3::nat) \<in> {1..64} \<and> mirror (hexLines 3) = Some 4 \<and> mirror (hexLines 4) = Some 3"
proof -
  have a: "(3::nat) \<in> {1..64}" by simp
  have m: "mirror (hexLines 3) = Some 4" by code_simp
  from mirror_involution
  have "\<forall>x\<in>{1..64}. \<exists>y\<in>{1..64}. mirror (hexLines x) = Some y \<and> mirror (hexLines y) = Some x"
    by blast
  from bspec [OF this a] m have "mirror (hexLines 4) = Some 3" by auto
  with a m show ?thesis by simp
qed

subsection \<open>Casting a line\<close>

lemma randomBytes_3: "randomBytes 3 (b0 # b1 # b2 # ent) = Some ([b0, b1, b2], ent)"
  by (simp add: randomBytes_def)

lemma castLine_bytes:
  "castLine (b0 # b1 # b2 # ent) =
     (let s = (if b0 AND 1 \<noteq> 0 then 3 else 2) + (if b1 AND 1 \<noteq> 0 then 3 else 2)
              + (if b2 AND 1 \<noteq> 0 then 3 else (2::nat))
      in Some (\<lparr>lvalue = s, isYang = (s = 7 \<or> s = 9), isChanging = (s = 6 \<or> s = 9)\<rparr>, ent))"
  by (simp add: castLine_def randomBytes_3 Let_def)

lemma and_one_idem: "((b::byte) AND 1) AND 1 = b AND 1"
  by (simp add: and.assoc)

lemma line_counts: "line_count 6 = 1 \<and> line_count 7 = 3 \<and> line_count 8 = 3 \<and> line_count 9 = 1"
  by (simp add: line_count_def parity_triples_def castLine_bytes Let_def)

lemma unat_byte_of_nat: "n < 256 \<Longrightarrow> unat (of_nat n :: byte) = n"
  by (simp add: unat_of_nat)

lemma all_bytes_distinct: "distinct all_bytes"
  unfolding all_bytes_def
  by (rule iffD2 [OF distinct_map], simp, rule inj_on_inverseI [where g = unat])
     (simp add: unat_byte_of_nat)

lemma all_bytes_set: "set all_bytes = UNIV"
proof -
  have "b \<in> set all_bytes" for b :: byte
  proof -
    have "unat b < 256" using unsigned_less [of b] by simp
    moreover have "of_nat (unat b) = b" by simp
    ultimately have "b \<in> of_nat ` {0..<256}" by (metis atLeastLessThan_iff image_eqI le0)
    then show ?thesis by (simp add: all_bytes_def)
  qed
  then show ?thesis by auto
qed

lemma byte_parity:
  "((of_nat n :: byte) AND 1 = 0) = even n" "((of_nat n :: byte) AND 1 = 1) = odd n"
  by (simp_all add: and_one_eq even_iff_mod_2_eq_zero [symmetric] odd_iff_mod_2_eq_one [symmetric])

lemma count_even: "length (filter even [0..<256::nat]) = 128"
  by code_simp

lemma count_odd: "length (filter odd [0..<256::nat]) = 128"
  by code_simp

lemma even_bytes: "length (filter (\<lambda>b. b AND 1 = 0) all_bytes) = 128"
  unfolding all_bytes_def filter_map length_map comp_def byte_parity by (rule count_even)

lemma odd_bytes: "length (filter (\<lambda>b. b AND 1 = 1) all_bytes) = 128"
  unfolding all_bytes_def filter_map length_map comp_def byte_parity by (rule count_odd)

text \<open>
  C7. \<open>castLine\<close> on any three bytes returns a line whose value is 6, 7, 8 or 9, with
  \<open>isYang\<close> and \<open>isChanging\<close> as the value says. The line depends on the parities of
  the three bytes only; half of the 256 byte values are even and half are odd, so the 8
  parity patterns are equally likely under uniform bytes; over these 8 patterns the
  values 6, 7, 8, 9 occur 1, 3, 3, 1 times.
\<close>

theorem castLine_distribution:
  "(\<exists>line. castLine (b0 # b1 # b2 # ent) = Some (line, ent)
         \<and> lvalue line \<in> {6, 7, 8, 9}
         \<and> isYang line = (lvalue line \<in> {7, 9}) \<and> isChanging line = (lvalue line \<in> {6, 9}))
   \<and> castLine (b0 # b1 # b2 # ent) = castLine ((b0 AND 1) # (b1 AND 1) # (b2 AND 1) # ent)
   \<and> length parity_triples = 8
   \<and> line_count 6 = 1 \<and> line_count 7 = 3 \<and> line_count 8 = 3 \<and> line_count 9 = 1
   \<and> length (filter (\<lambda>b. b AND 1 = 0) all_bytes) = 128
   \<and> length (filter (\<lambda>b. b AND 1 = 1) all_bytes) = 128"
proof -
  have a: "\<exists>line. castLine (b0 # b1 # b2 # ent) = Some (line, ent)
         \<and> lvalue line \<in> {6, 7, 8, 9}
         \<and> isYang line = (lvalue line \<in> {7, 9}) \<and> isChanging line = (lvalue line \<in> {6, 9})"
    by (simp add: castLine_bytes Let_def)
  have b: "castLine (b0 # b1 # b2 # ent) = castLine ((b0 AND 1) # (b1 AND 1) # (b2 AND 1) # ent)"
    by (simp only: castLine_bytes and_one_idem)
  have c: "length parity_triples = 8" by (simp add: parity_triples_def)
  from a b c line_counts even_bytes odd_bytes show ?thesis by blast
qed

subsection \<open>Polarity pattern\<close>

lemma length_6E:
  assumes "length ls = 6"
  obtains l0 l1 l2 l3 l4 l5 where "ls = [l0, l1, l2, l3, l4, l5]"
  using assms by (auto simp: length_Suc_conv eval_nat_numeral)

lemma linesToBinary_bits:
  assumes "linesToBinary [a, b, c, d, e, f] = Some n"
  shows "n < 64" and "isYang a = odd n" and "isYang b = odd (n div 2)"
    and "isYang c = odd (n div 4)" and "isYang d = odd (n div 8)"
    and "isYang e = odd (n div 16)" and "isYang f = odd (n div 32)"
  using assms unfolding linesToBinary_six
  by (cases "isYang a"; cases "isYang b"; cases "isYang c"; cases "isYang d";
      cases "isYang e"; cases "isYang f"; auto)+

lemma polarity_determined:
  assumes "length xs = 6" and "length ys = 6" and "linesToBinary xs = linesToBinary ys"
  shows "map isYang xs = map isYang ys"
proof -
  from assms(1) obtain a b c d e f where xs: "xs = [a, b, c, d, e, f]" by (rule length_6E)
  from assms(2) obtain a' b' c' d' e' f' where ys: "ys = [a', b', c', d', e', f']"
    by (rule length_6E)
  obtain n where n: "linesToBinary [a, b, c, d, e, f] = Some n" by (simp add: linesToBinary_six)
  with assms(3) have n': "linesToBinary [a', b', c', d', e', f'] = Some n" by (simp add: xs ys)
  show ?thesis unfolding xs ys
    using linesToBinary_bits(2-7) [OF n] linesToBinary_bits(2-7) [OF n'] by simp
qed

lemma mirror_polarity:
  assumes "length xs = 6" and "length ys = 6" and "map isYang xs = map isYang ys"
  shows "mirror xs = mirror ys" and "shadow xs = shadow ys" and "nuclear xs = nuclear ys"
proof -
  from assms(1) obtain a b c d e f where xs: "xs = [a, b, c, d, e, f]" by (rule length_6E)
  from assms(2) obtain a' b' c' d' e' f' where ys: "ys = [a', b', c', d', e', f']"
    by (rule length_6E)
  from assms(3) show "mirror xs = mirror ys" and "shadow xs = shadow ys" and "nuclear xs = nuclear ys"
    unfolding xs ys by (simp_all add: mirror_def shadow_def nuclear_def at_index_def linesToBinary_six)
qed

lemma hexLines_binary:
  "list_all (\<lambda>b. length (hexLines (BINARY_TO_KW ! b)) = 6
               \<and> linesToBinary (hexLines (BINARY_TO_KW ! b)) = Some b) [0..<64]"
  by code_simp

text \<open>
  The mirror, shadow and nuclear identifiers of any six lines are those of the stable
  lines of their primary identifier.
\<close>

lemma derived_by_primary:
  assumes "length ls = 6" and "linesToBinary ls = Some b"
  shows "mirror ls = mirror (hexLines (BINARY_TO_KW ! b))"
    and "shadow ls = shadow (hexLines (BINARY_TO_KW ! b))"
    and "nuclear ls = nuclear (hexLines (BINARY_TO_KW ! b))"
proof -
  from assms(1) obtain l0 l1 l2 l3 l4 l5 where ls: "ls = [l0, l1, l2, l3, l4, l5]"
    by (rule length_6E)
  from assms(2) have "b < 64" unfolding ls by (rule linesToBinary_bits(1))
  then have "b \<in> set [0..<64]" by simp
  with hexLines_binary have h: "length (hexLines (BINARY_TO_KW ! b)) = 6"
    "linesToBinary (hexLines (BINARY_TO_KW ! b)) = Some b"
    unfolding list_all_iff by blast+
  from polarity_determined [OF assms(1) h(1)] assms(2) h(2)
  have "map isYang ls = map isYang (hexLines (BINARY_TO_KW ! b))" by simp
  from mirror_polarity [OF assms(1) h(1) this]
  show "mirror ls = mirror (hexLines (BINARY_TO_KW ! b))"
    and "shadow ls = shadow (hexLines (BINARY_TO_KW ! b))"
    and "nuclear ls = nuclear (hexLines (BINARY_TO_KW ! b))" .
qed

subsection \<open>Casting a hexagram\<close>

lemma castLine_Some:
  assumes "castLine ent = Some (line, ent')"
  shows "3 \<le> length ent" and "ent' = drop 3 ent"
  using assms
  by (auto simp: castLine_def randomBytes_def Let_def split: if_splits)

lemma castLine_total: "3 \<le> length ent \<Longrightarrow> \<exists>line. castLine ent = Some (line, drop 3 ent)"
  by (simp add: castLine_def randomBytes_def Let_def)

lemma castLines_Some:
  "castLines k ent = Some (ls, ent') \<Longrightarrow> length ls = k \<and> ent' = drop (3 * k) ent"
proof (induction k arbitrary: ent ls ent')
  case 0
  then show ?case by simp
next
  case (Suc k)
  from Suc.prems obtain line ent1 rest where
    1: "castLine ent = Some (line, ent1)" and 2: "castLines k ent1 = Some (rest, ent')"
    and 3: "ls = line # rest"
    by (auto split: bind_splits)
  from castLine_Some(2) [OF 1] Suc.IH [OF 2] 3 show ?case
    by (simp add: add.commute)
qed

lemma castLines_total:
  "3 * k \<le> length ent \<Longrightarrow> \<exists>ls. castLines k ent = Some (ls, drop (3 * k) ent)"
proof (induction k arbitrary: ent)
  case 0
  then show ?case by simp
next
  case (Suc k)
  then have "3 \<le> length ent" by simp
  from castLine_total [OF this] obtain line where 1: "castLine ent = Some (line, drop 3 ent)" ..
  from Suc.prems have "3 * k \<le> length (drop 3 ent)" by simp
  from Suc.IH [OF this] obtain rest where
    2: "castLines k (drop 3 ent) = Some (rest, drop (3 * k) (drop 3 ent))" ..
  from 1 2 show ?case by (simp add: add.commute)
qed

lemma linesToBinary_total:
  assumes "length ls = 6"
  shows "\<exists>n<64. linesToBinary ls = Some n"
proof -
  from assms obtain a b c d e f where ls: "ls = [a, b, c, d, e, f]" by (rule length_6E)
  obtain n where n: "linesToBinary [a, b, c, d, e, f] = Some n" by (simp add: linesToBinary_six)
  from linesToBinary_bits(1) [OF n] n show ?thesis unfolding ls by simp
qed

lemma kw_of_lines:
  assumes "length ls = 6"
  shows "\<exists>kw\<in>{1..64}. Option.bind (linesToBinary ls) (\<lambda>binary. Some (BINARY_TO_KW ! binary)) = Some kw"
proof -
  from linesToBinary_total [OF assms] obtain n where "n < 64" "linesToBinary ls = Some n" by blast
  with BINARY_TO_KW_range [of n] show ?thesis by simp
qed

lemma derived_defined:
  assumes "length ls = 6"
  shows "\<exists>kw\<in>{1..64}. nuclear ls = Some kw" and "\<exists>kw\<in>{1..64}. shadow ls = Some kw"
    and "\<exists>kw\<in>{1..64}. mirror ls = Some kw"
proof -
  from assms obtain a b c d e f where ls: "ls = [a, b, c, d, e, f]" by (rule length_6E)
  have "length [b, c, d, c, d, e] = 6" by simp
  from kw_of_lines [OF this] show "\<exists>kw\<in>{1..64}. nuclear ls = Some kw"
    unfolding ls nuclear_def by (simp add: at_index_def)
  have "length (map (\<lambda>l. l\<lparr>isYang := \<not> isYang l\<rparr>) ls) = 6" using assms by simp
  from kw_of_lines [OF this] show "\<exists>kw\<in>{1..64}. shadow ls = Some kw"
    unfolding shadow_def Let_def .
  have "length (rev ls) = 6" using assms by simp
  from kw_of_lines [OF this] show "\<exists>kw\<in>{1..64}. mirror ls = Some kw"
    unfolding mirror_def .
qed

lemma changing_positions:
  "(map (\<lambda>i. i + 1) (filter (\<lambda>i. isChanging (ls ! i)) [0..<length ls]) \<noteq> [])
     = (\<exists>l\<in>set ls. isChanging l)"
proof -
  have "(\<exists>i\<in>set [0..<length ls]. isChanging (ls ! i)) = (\<exists>l\<in>set ls. isChanging l)"
    unfolding set_upt by (metis atLeastLessThan_iff in_set_conv_nth le0)
  then show ?thesis by (simp add: filter_empty_conv)
qed

lemma castHexagram_Some:
  assumes "castHexagram ent = Some (c, ent')"
  shows "\<exists>lines pb bc nu sh mi.
    castLines 6 ent = Some (lines, ent')
    \<and> linesToBinary lines = Some pb
    \<and> (if list_ex isChanging lines then
            Option.bind
              (linesToBinary
                (map (\<lambda>l. l\<lparr>isYang := (if isChanging l then \<not> isYang l else isYang l)\<rparr>) lines))
              (\<lambda>bb. Some (Some (BINARY_TO_KW ! bb),
                     map (\<lambda>i. i + 1) (filter (\<lambda>i. isChanging (lines ! i)) [0..<length lines])))
          else Some (None, [])) = Some bc
    \<and> nuclear lines = Some nu \<and> shadow lines = Some sh \<and> mirror lines = Some mi
    \<and> c = \<lparr>cast_lines = lines, cast_primary = BINARY_TO_KW ! pb, cast_becoming = fst bc,
              cast_changingPositions = snd bc,
              cast_nuclear = nu, cast_shadow = sh, cast_mirror = mi\<rparr>"
  using assms unfolding castHexagram_def Let_def
  by (auto simp: bind_eq_Some_conv)

lemma becoming_cases:
  assumes "length lines = 6"
    and "(if list_ex isChanging lines then
            Option.bind
              (linesToBinary
                (map (\<lambda>l. l\<lparr>isYang := (if isChanging l then \<not> isYang l else isYang l)\<rparr>) lines))
              (\<lambda>bb. Some (Some (BINARY_TO_KW ! bb),
                     map (\<lambda>i. i + 1) (filter (\<lambda>i. isChanging (lines ! i)) [0..<length lines])))
          else Some (None, [])) = Some bc"
  shows "(fst bc \<noteq> None) = (\<exists>l\<in>set lines. isChanging l)"
    and "(snd bc \<noteq> []) = (\<exists>l\<in>set lines. isChanging l)"
    and "\<forall>b. fst bc = Some b \<longrightarrow> b \<in> {1..64}"
proof -
  let ?bl = "map (\<lambda>l. l\<lparr>isYang := (if isChanging l then \<not> isYang l else isYang l)\<rparr>) lines"
  have "length ?bl = 6" using assms(1) by simp
  from linesToBinary_total [OF this] obtain n where n: "n < 64" "linesToBinary ?bl = Some n"
    by blast
  show "(fst bc \<noteq> None) = (\<exists>l\<in>set lines. isChanging l)"
    using assms(2) n(2) by (auto simp: list_ex_iff split: if_splits)
  show "(snd bc \<noteq> []) = (\<exists>l\<in>set lines. isChanging l)"
  proof (cases "list_ex isChanging lines")
    case True
    with assms(2) n(2)
    have "snd bc = map (\<lambda>i. i + 1) (filter (\<lambda>i. isChanging (lines ! i)) [0..<length lines])"
      by auto
    then show ?thesis by (simp only: changing_positions)
  next
    case False
    with assms(2) show ?thesis by (auto simp: list_ex_iff)
  qed
  show "\<forall>b. fst bc = Some b \<longrightarrow> b \<in> {1..64}"
    using assms(2) n BINARY_TO_KW_range [of n] by (auto split: if_splits)
qed

lemma castHexagram_total:
  assumes "18 \<le> length ent"
  shows "\<exists>c. castHexagram ent = Some (c, drop 18 ent)"
proof -
  from assms have "3 * 6 \<le> length ent" by simp
  from castLines_total [OF this] obtain lines where
    cl: "castLines 6 ent = Some (lines, drop 18 ent)" by auto
  from castLines_Some [OF cl] have len: "length lines = 6" by simp
  from linesToBinary_total [OF len] obtain pb where pb: "linesToBinary lines = Some pb" by blast
  let ?bl = "map (\<lambda>l. l\<lparr>isYang := (if isChanging l then \<not> isYang l else isYang l)\<rparr>) lines"
  have "length ?bl = 6" using len by simp
  from linesToBinary_total [OF this] obtain bb where bb: "linesToBinary ?bl = Some bb" by blast
  from derived_defined [OF len] obtain nu sh mi where
    d: "nuclear lines = Some nu" "shadow lines = Some sh" "mirror lines = Some mi" by blast
  show ?thesis
    by (simp add: castHexagram_def cl pb bb d Let_def)
qed

lemma castHexagram_props:
  assumes "castHexagram ent = Some (c, ent')"
  shows "length (cast_lines c) = 6"
    and "nuclear (cast_lines c) = Some (cast_nuclear c)"
    and "shadow (cast_lines c) = Some (cast_shadow c)"
    and "mirror (cast_lines c) = Some (cast_mirror c)"
    and "(cast_becoming c \<noteq> None) = (cast_changingPositions c \<noteq> [])"
    and "(cast_changingPositions c \<noteq> []) = (\<exists>l\<in>set (cast_lines c). isChanging l)"
    and "cast_primary c \<in> {1..64}" and "cast_nuclear c \<in> {1..64}"
    and "cast_shadow c \<in> {1..64}" and "cast_mirror c \<in> {1..64}"
    and "\<forall>b. cast_becoming c = Some b \<longrightarrow> b \<in> {1..64}"
    and "ent' = drop 18 ent"
proof -
  from castHexagram_Some [OF assms] obtain lines pb bc nu sh mi where
    cl: "castLines 6 ent = Some (lines, ent')"
    and pb: "linesToBinary lines = Some pb"
    and bc: "(if list_ex isChanging lines then
            Option.bind
              (linesToBinary
                (map (\<lambda>l. l\<lparr>isYang := (if isChanging l then \<not> isYang l else isYang l)\<rparr>) lines))
              (\<lambda>bb. Some (Some (BINARY_TO_KW ! bb),
                     map (\<lambda>i. i + 1) (filter (\<lambda>i. isChanging (lines ! i)) [0..<length lines])))
          else Some (None, [])) = Some bc"
    and d: "nuclear lines = Some nu" "shadow lines = Some sh" "mirror lines = Some mi"
    and c: "c = \<lparr>cast_lines = lines, cast_primary = BINARY_TO_KW ! pb, cast_becoming = fst bc,
              cast_changingPositions = snd bc,
              cast_nuclear = nu, cast_shadow = sh, cast_mirror = mi\<rparr>"
    by blast
  from castLines_Some [OF cl] have len: "length lines = 6" and "ent' = drop 18 ent" by simp_all
  then show "ent' = drop 18 ent" by simp
  note b = becoming_cases [OF len bc]
  from linesToBinary_total [OF len] pb have "pb < 64" by auto
  from BINARY_TO_KW_range [OF this] have p: "BINARY_TO_KW ! pb \<in> {1..64}" by simp
  from derived_defined [OF len] d have r: "nu \<in> {1..64}" "sh \<in> {1..64}" "mi \<in> {1..64}"
    by auto
  show "length (cast_lines c) = 6" using len c by simp
  show "nuclear (cast_lines c) = Some (cast_nuclear c)" using d c by simp
  show "shadow (cast_lines c) = Some (cast_shadow c)" using d c by simp
  show "mirror (cast_lines c) = Some (cast_mirror c)" using d c by simp
  show "(cast_becoming c \<noteq> None) = (cast_changingPositions c \<noteq> [])"
    using b(1,2) c by simp
  show "(cast_changingPositions c \<noteq> []) = (\<exists>l\<in>set (cast_lines c). isChanging l)"
    using b(2) c by simp
  show "cast_primary c \<in> {1..64}" using p c by simp
  show "cast_nuclear c \<in> {1..64}" using r c by simp
  show "cast_shadow c \<in> {1..64}" using r c by simp
  show "cast_mirror c \<in> {1..64}" using r c by simp
  show "\<forall>b. cast_becoming c = Some b \<longrightarrow> b \<in> {1..64}" using b(3) c by simp
qed

text \<open>
  C5. With 18 bytes of entropy \<open>castHexagram\<close> returns a cast. For every cast it returns:
  the nuclear, shadow and mirror fields are the values the three functions return on its
  lines; \<open>becoming\<close> is non-null iff \<open>changingPositions\<close> is non-empty, iff some line is
  changing; primary, nuclear, shadow, mirror and becoming (when present) lie in 1..64.
\<close>

theorem castHexagram_invariant:
  "(18 \<le> length ent \<longrightarrow> (\<exists>c. castHexagram ent = Some (c, drop 18 ent)))
   \<and> (\<forall>c ent'. castHexagram ent = Some (c, ent') \<longrightarrow>
         length (cast_lines c) = 6
       \<and> nuclear (cast_lines c) = Some (cast_nuclear c)
       \<and> shadow (cast_lines c) = Some (cast_shadow c)
       \<and> mirror (cast_lines c) = Some (cast_mirror c)
       \<and> (cast_becoming c \<noteq> None) = (cast_changingPositions c \<noteq> [])
       \<and> (cast_changingPositions c \<noteq> []) = (\<exists>l\<in>set (cast_lines c). isChanging l)
       \<and> cast_primary c \<in> {1..64} \<and> cast_nuclear c \<in> {1..64}
       \<and> cast_shadow c \<in> {1..64} \<and> cast_mirror c \<in> {1..64}
       \<and> (\<forall>b. cast_becoming c = Some b \<longrightarrow> b \<in> {1..64}))"
proof (intro conjI allI impI)
  assume "18 \<le> length ent"
  then show "\<exists>c. castHexagram ent = Some (c, drop 18 ent)" by (rule castHexagram_total)
next
  fix c ent'
  assume h: "castHexagram ent = Some (c, ent')"
  note p = castHexagram_props [OF h]
  show "length (cast_lines c) = 6" by (rule p)
  show "nuclear (cast_lines c) = Some (cast_nuclear c)" by (rule p)
  show "shadow (cast_lines c) = Some (cast_shadow c)" by (rule p)
  show "mirror (cast_lines c) = Some (cast_mirror c)" by (rule p)
  show "(cast_becoming c \<noteq> None) = (cast_changingPositions c \<noteq> [])" by (rule p)
  show "(cast_changingPositions c \<noteq> []) = (\<exists>l\<in>set (cast_lines c). isChanging l)" by (rule p)
  show "cast_primary c \<in> {1..64}" by (rule p)
  show "cast_nuclear c \<in> {1..64}" by (rule p)
  show "cast_shadow c \<in> {1..64}" by (rule p)
  show "cast_mirror c \<in> {1..64}" by (rule p)
  fix k
  assume "cast_becoming c = Some k"
  with p(11) show "k \<in> {1..64}" by simp
qed

lemma example_cast_eval:
  "castHexagram example_entropy =
     Some (\<lparr>cast_lines =
               [\<lparr>lvalue = 7, isYang = True, isChanging = False\<rparr>,
                \<lparr>lvalue = 6, isYang = False, isChanging = True\<rparr>,
                \<lparr>lvalue = 6, isYang = False, isChanging = True\<rparr>,
                \<lparr>lvalue = 6, isYang = False, isChanging = True\<rparr>,
                \<lparr>lvalue = 7, isYang = True, isChanging = False\<rparr>,
                \<lparr>lvalue = 6, isYang = False, isChanging = True\<rparr>],
             cast_primary = 3, cast_becoming = Some 1, cast_changingPositions = [2, 3, 4, 6],
             cast_nuclear = 23, cast_shadow = 50, cast_mirror = 4\<rparr>, [77])"
  by code_simp

theorem castHexagram_invariant_witness:
  "18 \<le> length example_entropy
   \<and> (\<exists>c. castHexagram example_entropy = Some (c, [77])
        \<and> cast_primary c = 3 \<and> cast_primary c \<in> {1..64}
        \<and> cast_becoming c = Some 1 \<and> cast_changingPositions c = [2, 3, 4, 6]
        \<and> (\<exists>l\<in>set (cast_lines c). isChanging l)
        \<and> nuclear (cast_lines c) = Some 23 \<and> shadow (cast_lines c) = Some 50
        \<and> mirror (cast_lines c) = Some 4)"
proof -
  have len: "18 \<le> length example_entropy" by (simp add: example_entropy_def)
  from example_cast_eval obtain c where
    c: "castHexagram example_entropy = Some (c, [77])" "cast_primary c = 3"
      "cast_becoming c = Some 1" "cast_changingPositions c = [2, 3, 4, 6]"
      "cast_nuclear c = 23" "cast_shadow c = 50" "cast_mirror c = 4"
    by simp
  from castHexagram_invariant [of example_entropy] c(1)
  have "nuclear (cast_lines c) = Some (cast_nuclear c)"
    "shadow (cast_lines c) = Some (cast_shadow c)"
    "mirror (cast_lines c) = Some (cast_mirror c)"
    "(cast_changingPositions c \<noteq> []) = (\<exists>l\<in>set (cast_lines c). isChanging l)"
    "cast_primary c \<in> {1..64}"
    by blast+
  with len c show ?thesis by auto
qed

subsection \<open>The reveal bands\<close>

lemma rat_lt_nat: "(of_nat n * of_nat k < (of_nat m :: rat)) = (n * k < m)"
  by (simp only: of_nat_mult [symmetric] of_nat_less_iff)

lemma below_0_04: "(of_nat n / 256 < T_0_04) = (n \<le> 10)"
proof -
  have "(of_nat n / 256 < T_0_04) = (of_nat n * 562949953421312 < (5764607523034235::rat))"
    unfolding T_0_04_def by (simp add: field_simps)
  also have "\<dots> = (n * 562949953421312 < 5764607523034235)"
    using rat_lt_nat [of n 562949953421312 5764607523034235] by simp
  also have "\<dots> = (n \<le> 10)" by (rule iffI; linarith)
  finally show ?thesis .
qed

lemma below_0_08: "(of_nat n / 256 < T_0_08) = (n \<le> 20)"
proof -
  have "(of_nat n / 256 < T_0_08) = (of_nat n * 281474976710656 < (5764607523034235::rat))"
    unfolding T_0_08_def by (simp add: field_simps)
  also have "\<dots> = (n * 281474976710656 < 5764607523034235)"
    using rat_lt_nat [of n 281474976710656 5764607523034235] by simp
  also have "\<dots> = (n \<le> 20)" by (rule iffI; linarith)
  finally show ?thesis .
qed

lemma below_0_12: "(of_nat n / 256 < T_0_12) = (n \<le> 30)"
proof -
  have "(of_nat n / 256 < T_0_12) = (of_nat n * 35184372088832 < (1080863910568919::rat))"
    unfolding T_0_12_def by (simp add: field_simps)
  also have "\<dots> = (n * 35184372088832 < 1080863910568919)"
    using rat_lt_nat [of n 35184372088832 1080863910568919] by simp
  also have "\<dots> = (n \<le> 30)" by (rule iffI; linarith)
  finally show ?thesis .
qed

lemma below_0_16: "(of_nat n / 256 < T_0_16) = (n \<le> 40)"
proof -
  have "(of_nat n / 256 < T_0_16) = (of_nat n * 140737488355328 < (5764607523034235::rat))"
    unfolding T_0_16_def by (simp add: field_simps)
  also have "\<dots> = (n * 140737488355328 < 5764607523034235)"
    using rat_lt_nat [of n 140737488355328 5764607523034235] by simp
  also have "\<dots> = (n \<le> 40)" by (rule iffI; linarith)
  finally show ?thesis .
qed

lemma below_0_2: "(of_nat n / 256 < T_0_2) = (n \<le> 51)"
proof -
  have "(of_nat n / 256 < T_0_2) = (of_nat n * 70368744177664 < (3602879701896397::rat))"
    unfolding T_0_2_def by (simp add: field_simps)
  also have "\<dots> = (n * 70368744177664 < 3602879701896397)"
    using rat_lt_nat [of n 70368744177664 3602879701896397] by simp
  also have "\<dots> = (n \<le> 51)" by (rule iffI; linarith)
  finally show ?thesis .
qed

lemma below_0_225: "(of_nat n / 256 < T_0_225) = (n \<le> 57)"
proof -
  have "(of_nat n / 256 < T_0_225) = (of_nat n * 140737488355328 < (8106479329266893::rat))"
    unfolding T_0_225_def by (simp add: field_simps)
  also have "\<dots> = (n * 140737488355328 < 8106479329266893)"
    using rat_lt_nat [of n 140737488355328 8106479329266893] by simp
  also have "\<dots> = (n \<le> 57)" by (rule iffI; linarith)
  finally show ?thesis .
qed

lemma below_0_25: "(of_nat n / 256 < T_0_25) = (n \<le> 63)"
proof -
  have "(of_nat n / 256 < T_0_25) = (of_nat n * 1 < (64::rat))"
    unfolding T_0_25_def by (simp add: field_simps)
  also have "\<dots> = (n * 1 < 64)"
    using rat_lt_nat [of n 1 64] by simp
  also have "\<dots> = (n \<le> 63)" by (rule iffI; linarith)
  finally show ?thesis .
qed

lemma below_0_275: "(of_nat n / 256 < T_0_275) = (n \<le> 70)"
proof -
  have "(of_nat n / 256 < T_0_275) = (of_nat n * 35184372088832 < (2476979795053773::rat))"
    unfolding T_0_275_def by (simp add: field_simps)
  also have "\<dots> = (n * 35184372088832 < 2476979795053773)"
    using rat_lt_nat [of n 35184372088832 2476979795053773] by simp
  also have "\<dots> = (n \<le> 70)" by (rule iffI; linarith)
  finally show ?thesis .
qed

lemma below_0_3: "(of_nat n / 256 < T_0_3) = (n \<le> 76)"
proof -
  have "(of_nat n / 256 < T_0_3) = (of_nat n * 70368744177664 < (5404319552844595::rat))"
    unfolding T_0_3_def by (simp add: field_simps)
  also have "\<dots> = (n * 70368744177664 < 5404319552844595)"
    using rat_lt_nat [of n 70368744177664 5404319552844595] by simp
  also have "\<dots> = (n \<le> 76)" by (rule iffI; linarith)
  finally show ?thesis .
qed

lemma select_action_band: "select_action b = band_table (unat b)"
  unfolding select_action_def band_table_def Let_def
  by (simp only: below_0_04 below_0_08 below_0_12 below_0_16 below_0_2 below_0_225 below_0_25
        below_0_275 below_0_3)

lemma band_count_nat: "band_count a = length (filter (\<lambda>n. band_table n = a) [0..<256])"
proof -
  have "filter (\<lambda>n. select_action (of_nat n) = a) [0..<256]
          = filter (\<lambda>n. band_table n = a) [0..<256]"
    by (rule filter_cong [OF refl]) (simp add: select_action_band unat_byte_of_nat)
  then show ?thesis
    by (simp add: band_count_def all_bytes_def filter_map comp_def)
qed

lemma band_sets:
  "{n. band_table n = ShowReading DX} \<inter> {0..<256} = {0..10}"
  "{n. band_table n = ShowReading TU} \<inter> {0..<256} = {11..20}"
  "{n. band_table n = ShowReading EN} \<inter> {0..<256} = {21..30}"
  "{n. band_table n = ShowReading TE} \<inter> {0..<256} = {31..40}"
  "{n. band_table n = ShowReading W} \<inter> {0..<256} = {41..51}"
  "{n. band_table n = ShowDerived Nuclear} \<inter> {0..<256} = {52..57}"
  "{n. band_table n = ShowDerived Shadow} \<inter> {0..<256} = {58..63}"
  "{n. band_table n = ShowDerived Mirror} \<inter> {0..<256} = {64..70}"
  "{n. band_table n = ShowDerived Becoming} \<inter> {0..<256} = {71..76}"
  "{n. band_table n = Silent} \<inter> {0..<256} = {77..255}"
  by (auto simp: band_table_def split: if_splits)

lemma band_count_card: "band_count a = card ({n. band_table n = a} \<inter> {0..<256})"
  unfolding band_count_nat by (simp add: distinct_length_filter)

lemma band_counts_reading:
  "band_count (ShowReading DX) = 11" "band_count (ShowReading TU) = 10"
  "band_count (ShowReading EN) = 10" "band_count (ShowReading TE) = 10"
  "band_count (ShowReading W) = 11"
  unfolding band_count_card band_sets by simp_all

lemma band_counts_derived:
  "band_count (ShowDerived Nuclear) = 6" "band_count (ShowDerived Shadow) = 6"
  "band_count (ShowDerived Mirror) = 7" "band_count (ShowDerived Becoming) = 6"
  "band_count Silent = 179"
  unfolding band_count_card band_sets by simp_all

text \<open>
  Each threshold is within half a unit in the last place of the decimal literal it
  stands for, and the decimal itself cuts the byte values at the same place.
\<close>

lemma thresholds_round_decimals:
  "\<bar>T_0_04 - 0.04\<bar> \<le> 1 / 2 ^ 58" "\<bar>T_0_08 - 0.08\<bar> \<le> 1 / 2 ^ 57"
  "\<bar>T_0_12 - 0.12\<bar> \<le> 1 / 2 ^ 54" "\<bar>T_0_16 - 0.16\<bar> \<le> 1 / 2 ^ 56"
  "\<bar>T_0_2 - 0.2\<bar> \<le> 1 / 2 ^ 55" "\<bar>T_0_225 - 0.225\<bar> \<le> 1 / 2 ^ 56"
  "T_0_25 = 0.25" "\<bar>T_0_275 - 0.275\<bar> \<le> 1 / 2 ^ 54" "\<bar>T_0_3 - 0.3\<bar> \<le> 1 / 2 ^ 55"
  by (simp_all add: T_0_04_def T_0_08_def T_0_12_def T_0_16_def T_0_2_def T_0_225_def
        T_0_25_def T_0_275_def T_0_3_def)

text \<open>
  C8, as the specification states it, fails: of the 256 equally likely selection bytes,
  11 select the first commentary style (11/256, not 4%), 10 select the second (the bands
  are not of equal width), 7 select the mirror reading (not 2.5%), and 179 select no
  branch (not 70%).
\<close>

theorem reveal_bands_counterexample:
  "band_probability (ShowReading DX) = 11 / 256
   \<and> band_probability (ShowReading DX) \<noteq> 4 / 100
   \<and> band_probability (ShowReading TU) = 10 / 256
   \<and> band_probability (ShowReading DX) \<noteq> band_probability (ShowReading TU)
   \<and> band_probability (ShowDerived Mirror) = 7 / 256
   \<and> band_probability (ShowDerived Mirror) \<noteq> 25 / 1000
   \<and> band_probability Silent = 179 / 256 \<and> band_probability Silent \<noteq> 70 / 100"
  by (simp add: band_probability_def band_counts_reading band_counts_derived)

text \<open>
  C8, amended. The selection byte \<open>b\<close> takes the branch that \<open>band_table\<close> gives for its
  value: 0..10, 11..20, 21..30, 31..40, 41..51 for the five commentary styles (11, 10, 10,
  10, 11 of the 256 byte values), 52..57, 58..63, 64..70, 71..76 for nuclear, shadow,
  mirror, becoming (6, 6, 7, 6 values), and 77..255 for no branch (179 values); so 77 of
  256 values select a branch.
\<close>

theorem reveal_bands:
  "select_action b = band_table (unat b)
   \<and> band_count (ShowReading DX) = 11 \<and> band_count (ShowReading TU) = 10
   \<and> band_count (ShowReading EN) = 10 \<and> band_count (ShowReading TE) = 10
   \<and> band_count (ShowReading W) = 11
   \<and> band_count (ShowDerived Nuclear) = 6 \<and> band_count (ShowDerived Shadow) = 6
   \<and> band_count (ShowDerived Mirror) = 7 \<and> band_count (ShowDerived Becoming) = 6
   \<and> band_count Silent = 179
   \<and> length all_bytes = 256
   \<and> length (filter (\<lambda>b. select_action b \<noteq> Silent) all_bytes) = 77"
proof -
  have "length (filter (\<lambda>b. select_action b \<noteq> Silent) all_bytes) + band_count Silent
          = length all_bytes"
    unfolding band_count_def
    using sum_length_filter_compl [of "\<lambda>b. select_action b \<noteq> Silent" all_bytes] by simp
  moreover have "length all_bytes = 256" by (simp add: all_bytes_def)
  ultimately have "length (filter (\<lambda>b. select_action b \<noteq> Silent) all_bytes) = 77"
    using band_counts_derived(5) by simp
  with select_action_band band_counts_reading band_counts_derived \<open>length all_bytes = 256\<close>
  show ?thesis by simp
qed

subsection \<open>The invocation\<close>

lemma GUA_l_length: "length GUA_l = 64"
  by (simp add: GUA_l_def)

lemma gua_table_length: "map gua_l G = GUA_l \<Longrightarrow> length G = 64"
  using GUA_l_length by (metis length_map)

lemma gua_at_in_range: "kw \<in> {1..length G} \<Longrightarrow> gua_at G kw = Some (G ! (kw - 1))"
  by (auto simp: gua_at_def at_index_def)

lemma formatReading_defined:
  assumes "length G = 64" and "cast_primary c \<in> {1..64}"
    and "\<forall>b. cast_becoming c = Some b \<longrightarrow> b \<in> {1..64}"
  shows "\<exists>s. s \<noteq> [] \<and> formatReading G c style = Some s"
proof (cases "cast_becoming c")
  case None
  with assms(1,2) show ?thesis
    by (simp add: formatReading_def gua_at_in_range Let_def)
next
  case (Some b)
  with assms(3) have "b \<in> {1..length G}" using assms(1) by simp
  with Some assms(1,2) show ?thesis
    by (simp add: formatReading_def gua_at_in_range Let_def)
qed

lemma first_show:
  assumes "length G = 64" and "castHexagram ent = Some (c, ent1)"
  shows "\<exists>s. s \<noteq> [] \<and> formatReading G c DX = Some s
           \<and> show_or_reveal G \<lparr>cache_date = date, cache_cast = c, cache_shown = False\<rparr> ent1
               = Some (Some s, \<lparr>cache_date = date, cache_cast = c, cache_shown = True\<rparr>)"
proof -
  from castHexagram_props [OF assms(2)]
  have "cast_primary c \<in> {1..64}" and "\<forall>b. cast_becoming c = Some b \<longrightarrow> b \<in> {1..64}"
    by blast+
  from formatReading_defined [OF assms(1) this] obtain s where
    "s \<noteq> []" "formatReading G c DX = Some s" by blast
  then show ?thesis by (simp add: show_or_reveal_def)
qed

lemma main_fresh:
  assumes "length G = 64" and "castHexagram ent = Some (c, ent1)"
    and "load_cache st = Some cache0"
    and "new_day date ent cache0 st = (st1, fresh_record date ent)"
  shows "\<exists>s. s \<noteq> [] \<and> formatReading G c DX = Some s
           \<and> main G True date ent st =
               \<lparr>store = st1\<lparr>cache_file := Stored \<lparr>cache_date = date, cache_cast = c, cache_shown = True\<rparr>\<rparr>,
                stdout = Some s, exit_code = 0\<rparr>"
proof -
  from first_show [OF assms(1,2)] obtain s where s: "s \<noteq> []" "formatReading G c DX = Some s"
    "show_or_reveal G \<lparr>cache_date = date, cache_cast = c, cache_shown = False\<rparr> ent1
       = Some (Some s, \<lparr>cache_date = date, cache_cast = c, cache_shown = True\<rparr>)"
    by blast
  have "fresh_record date ent = Some (\<lparr>cache_date = date, cache_cast = c, cache_shown = False\<rparr>, ent1)"
    by (simp add: fresh_record_def assms(2))
  with assms(3,4) s show ?thesis
    by (simp add: main_def main_try_def)
qed

lemma exit_code_zero: "exit_code (main G stdin_json date ent st) = 0"
  by (simp add: main_def split: prod.splits option.splits)

lemma example_GUA_column: "map gua_l example_GUA = GUA_l"
  by (simp add: example_GUA_def comp_def)

text \<open>
  C6, as the specification states it, fails on two inputs. A stored record whose date is
  the empty string differs from today's date, yet the guard \<open>cache?.date && \<dots>\<close> skips
  the history append. And when the payload on standard input is not JSON,
  \<open>Bun.stdin.json()\<close> throws before the store is read: nothing is appended, cast or
  printed, and yesterday's record stays in the cache slot.
\<close>

theorem day_rollover_counterexample:
  "cache_file undated_store = Stored (example_old\<lparr>cache_date := []\<rparr>)
   \<and> cache_date (example_old\<lparr>cache_date := []\<rparr>) \<noteq> ''2026-11-03''
   \<and> history undated_store = []
   \<and> history (store (main example_GUA True ''2026-11-03'' example_entropy undated_store)) = []
   \<and> cache_file example_store = Stored example_old
   \<and> cache_date example_old \<noteq> ''2026-11-03''
   \<and> main example_GUA False ''2026-11-03'' example_entropy example_store
       = \<lparr>store = example_store, stdout = None, exit_code = 0\<rparr>"
  by code_simp

text \<open>
  C6, amended. For every invocation whose payload parses as JSON and whose entropy
  supply holds the 18 bytes of a casting, in which the stored record's date is non-empty
  and differs from the current date: exactly one history entry carrying the old record's
  date and cast is appended, a new cast is made for today, the primary reading in the
  \<open>dx\<close> style is printed, and the persisted record has today's date, the new cast and
  the shown flag set. \<open>G\<close> is the table \<open>GUA\<close>: any table whose \<open>l\<close> column is the
  source's.
\<close>

theorem day_rollover:
  assumes "map gua_l G = GUA_l" and "stdin_json" and "cache_file st = Stored old"
    and "cache_date old \<noteq> []" and "cache_date old \<noteq> date" and "18 \<le> length ent"
  shows "\<exists>c s. castHexagram ent = Some (c, drop 18 ent)
           \<and> history (store (main G stdin_json date ent st))
               = history st @ [\<lparr>entry_date = cache_date old, entry_cast = cache_cast old\<rparr>]
           \<and> cache_file (store (main G stdin_json date ent st))
               = Stored \<lparr>cache_date = date, cache_cast = c, cache_shown = True\<rparr>
           \<and> formatReading G c DX = Some s \<and> s \<noteq> []
           \<and> stdout (main G stdin_json date ent st) = Some s
           \<and> exit_code (main G stdin_json date ent st) = 0"
proof -
  from assms(2) have sj: "stdin_json = True" by simp
  from castHexagram_total [OF assms(6)] obtain c where
    c: "castHexagram ent = Some (c, drop 18 ent)" ..
  have l: "load_cache st = Some (Some old)" by (simp add: load_cache_def assms(3))
  have n: "new_day date ent (Some old) st = (appendToHistory old st, fresh_record date ent)"
    using assms(4,5) by (simp add: new_day_def)
  from main_fresh [OF gua_table_length [OF assms(1)] c l n] obtain s where
    s: "s \<noteq> []" "formatReading G c DX = Some s"
    "main G True date ent st =
       \<lparr>store = (appendToHistory old st)
                  \<lparr>cache_file := Stored \<lparr>cache_date = date, cache_cast = c, cache_shown = True\<rparr>\<rparr>,
        stdout = Some s, exit_code = 0\<rparr>"
    by blast
  from c s show ?thesis unfolding sj by (auto simp: appendToHistory_def)
qed

theorem day_rollover_witness:
  "map gua_l example_GUA = GUA_l \<and> cache_file example_store = Stored example_old
   \<and> cache_date example_old \<noteq> [] \<and> cache_date example_old \<noteq> ''2026-11-03''
   \<and> 18 \<le> length example_entropy
   \<and> history (store (main example_GUA True ''2026-11-03'' example_entropy example_store))
       = [\<lparr>entry_date = ''2026-11-02'', entry_cast = example_cast\<rparr>]
   \<and> (\<exists>c. cast_primary c = 3
          \<and> cache_file (store (main example_GUA True ''2026-11-03'' example_entropy example_store))
              = Stored \<lparr>cache_date = ''2026-11-03'', cache_cast = c, cache_shown = True\<rparr>
          \<and> stdout (main example_GUA True ''2026-11-03'' example_entropy example_store)
              = formatReading example_GUA c DX
          \<and> formatReading example_GUA c DX \<noteq> None)"
proof -
  have h: "cache_file example_store = Stored example_old" "cache_date example_old \<noteq> []"
    "cache_date example_old \<noteq> ''2026-11-03''" "18 \<le> length example_entropy"
    by (simp_all add: example_store_def example_old_def example_entropy_def)
  from day_rollover [OF example_GUA_column TrueI h]
  obtain c s where
    r: "castHexagram example_entropy = Some (c, drop 18 example_entropy)"
    "history (store (main example_GUA True ''2026-11-03'' example_entropy example_store))
       = history example_store @ [\<lparr>entry_date = cache_date example_old, entry_cast = cache_cast example_old\<rparr>]"
    "cache_file (store (main example_GUA True ''2026-11-03'' example_entropy example_store))
       = Stored \<lparr>cache_date = ''2026-11-03'', cache_cast = c, cache_shown = True\<rparr>"
    "formatReading example_GUA c DX = Some s"
    "stdout (main example_GUA True ''2026-11-03'' example_entropy example_store) = Some s"
    by blast
  from r(1) have "c = fst (the (castHexagram example_entropy))" by simp
  then have "cast_primary c = 3" unfolding example_cast_eval by simp
  moreover from r(2) have
    "history (store (main example_GUA True ''2026-11-03'' example_entropy example_store))
       = [\<lparr>entry_date = ''2026-11-02'', entry_cast = example_cast\<rparr>]"
    by (simp add: example_store_def example_old_def)
  ultimately show ?thesis using h r(3,4,5) example_GUA_column by auto
qed

text \<open>
  The two paths that treat the store as ``no prior record'': a missing file, and a file
  that parses to a value without a date. With a payload that parses and entropy for one
  casting, each ends in a fresh record persisted with the shown flag set, the history as
  it was, and the primary reading printed.
\<close>

lemma no_prior_record_recovers:
  assumes "map gua_l G = GUA_l" and "stdin_json"
    and "cache_file st = Absent \<or> cache_file st = NonRecord" and "18 \<le> length ent"
  shows "\<exists>c s. castHexagram ent = Some (c, drop 18 ent)
           \<and> formatReading G c DX = Some s
           \<and> main G stdin_json date ent st =
               \<lparr>store = st\<lparr>cache_file :=
                          Stored \<lparr>cache_date = date, cache_cast = c, cache_shown = True\<rparr>\<rparr>,
                stdout = Some s, exit_code = 0\<rparr>"
proof -
  from assms(2) have sj: "stdin_json = True" by simp
  from castHexagram_total [OF assms(4)] obtain c where
    c: "castHexagram ent = Some (c, drop 18 ent)" ..
  have l: "load_cache st = Some None" using assms(3) by (auto simp: load_cache_def)
  have n: "new_day date ent None st = (st, fresh_record date ent)" by (simp add: new_day_def)
  from main_fresh [OF gua_table_length [OF assms(1)] c l n] obtain s where
    "formatReading G c DX = Some s"
    "main G True date ent st =
       \<lparr>store = st\<lparr>cache_file := Stored \<lparr>cache_date = date, cache_cast = c, cache_shown = True\<rparr>\<rparr>,
        stdout = Some s, exit_code = 0\<rparr>"
    by blast
  with c show ?thesis unfolding sj by blast
qed

lemma unparseable_store_untouched:
  "cache_file st = Malformed \<Longrightarrow>
     main G stdin_json date ent st = \<lparr>store = st, stdout = None, exit_code = 0\<rparr>"
  by (simp add: main_def main_try_def load_cache_def)

lemma example_recoveries:
  "\<exists>c s. castHexagram example_entropy = Some (c, [77]) \<and> cast_primary c = 3
     \<and> formatReading example_GUA c DX = Some s
     \<and> main example_GUA True ''2026-11-03'' example_entropy absent_store =
         \<lparr>store = \<lparr>cache_file =
                     Stored \<lparr>cache_date = ''2026-11-03'', cache_cast = c, cache_shown = True\<rparr>,
                   history = []\<rparr>,
          stdout = Some s, exit_code = 0\<rparr>
     \<and> main example_GUA True ''2026-11-03'' example_entropy nonrecord_store =
         \<lparr>store = \<lparr>cache_file =
                     Stored \<lparr>cache_date = ''2026-11-03'', cache_cast = c, cache_shown = True\<rparr>,
                   history = []\<rparr>,
          stdout = Some s, exit_code = 0\<rparr>"
proof -
  have e: "18 \<le> length example_entropy" "drop 18 example_entropy = [77]"
    by (simp_all add: example_entropy_def)
  have a: "cache_file absent_store = Absent \<or> cache_file absent_store = NonRecord"
    by (simp add: absent_store_def)
  have b: "cache_file nonrecord_store = Absent \<or> cache_file nonrecord_store = NonRecord"
    by (simp add: nonrecord_store_def)
  from no_prior_record_recovers [OF example_GUA_column TrueI a e(1), of "''2026-11-03''"]
  obtain c s where
    1: "castHexagram example_entropy = Some (c, [77])" "formatReading example_GUA c DX = Some s"
    "main example_GUA True ''2026-11-03'' example_entropy absent_store =
       \<lparr>store = absent_store\<lparr>cache_file :=
                  Stored \<lparr>cache_date = ''2026-11-03'', cache_cast = c, cache_shown = True\<rparr>\<rparr>,
        stdout = Some s, exit_code = 0\<rparr>"
    unfolding e(2) by blast
  from no_prior_record_recovers [OF example_GUA_column TrueI b e(1), of "''2026-11-03''"]
  obtain c' s' where
    2: "castHexagram example_entropy = Some (c', [77])" "formatReading example_GUA c' DX = Some s'"
    "main example_GUA True ''2026-11-03'' example_entropy nonrecord_store =
       \<lparr>store = nonrecord_store\<lparr>cache_file :=
                  Stored \<lparr>cache_date = ''2026-11-03'', cache_cast = c', cache_shown = True\<rparr>\<rparr>,
        stdout = Some s', exit_code = 0\<rparr>"
    unfolding e(2) by blast
  from 1(1) 2(1) have cc: "c' = c" by simp
  with 1(2) 2(2) have ss: "s' = s" by simp
  from 1(1) have "c = fst (the (castHexagram example_entropy))" by simp
  then have p: "cast_primary c = 3" unfolding example_cast_eval by simp
  from 1 2(3) p show ?thesis
    unfolding cc ss by (auto simp: absent_store_def nonrecord_store_def)
qed

text \<open>
  C9. The claim asks that a corrupt or missing store be treated as ``no prior record'':
  a fresh record is cast and persisted, and no error reaches the user. The code does so
  for a missing file and for a file that parses to a value without a date. For a file
  whose content is not JSON it does not: \<open>file.json()\<close> throws inside the \<open>try\<close> block and
  the \<open>catch\<close> exits before the casting and before \<open>Bun.write\<close>. For every table,
  payload, date, entropy supply and history, the invocation on such a store leaves it as
  it is and prints nothing, with exit status 0; so the next invocation finds the same
  store and ends the same way. On the same date and entropy the missing store and the
  store holding a value without a date both end in the fresh record.
\<close>

theorem unparseable_store_not_recovered:
  "main G stdin_json date ent \<lparr>cache_file = Malformed, history = h\<rparr>
     = \<lparr>store = \<lparr>cache_file = Malformed, history = h\<rparr>, stdout = None, exit_code = 0\<rparr>
   \<and> main example_GUA True ''2026-11-03'' example_entropy malformed_store
     = \<lparr>store = malformed_store, stdout = None, exit_code = 0\<rparr>
   \<and> (\<exists>c s. castHexagram example_entropy = Some (c, [77]) \<and> cast_primary c = 3
         \<and> formatReading example_GUA c DX = Some s
         \<and> main example_GUA True ''2026-11-03'' example_entropy absent_store =
             \<lparr>store = \<lparr>cache_file =
                         Stored \<lparr>cache_date = ''2026-11-03'', cache_cast = c, cache_shown = True\<rparr>,
                       history = []\<rparr>,
              stdout = Some s, exit_code = 0\<rparr>
         \<and> main example_GUA True ''2026-11-03'' example_entropy nonrecord_store =
             \<lparr>store = \<lparr>cache_file =
                         Stored \<lparr>cache_date = ''2026-11-03'', cache_cast = c, cache_shown = True\<rparr>,
                       history = []\<rparr>,
              stdout = Some s, exit_code = 0\<rparr>)"
proof (intro conjI)
  show "main G stdin_json date ent \<lparr>cache_file = Malformed, history = h\<rparr>
     = \<lparr>store = \<lparr>cache_file = Malformed, history = h\<rparr>, stdout = None, exit_code = 0\<rparr>"
    by (rule unparseable_store_untouched) simp
  show "main example_GUA True ''2026-11-03'' example_entropy malformed_store
     = \<lparr>store = malformed_store, stdout = None, exit_code = 0\<rparr>"
    by (rule unparseable_store_untouched) (simp add: malformed_store_def)
  show "\<exists>c s. castHexagram example_entropy = Some (c, [77]) \<and> cast_primary c = 3
         \<and> formatReading example_GUA c DX = Some s
         \<and> main example_GUA True ''2026-11-03'' example_entropy absent_store =
             \<lparr>store = \<lparr>cache_file =
                         Stored \<lparr>cache_date = ''2026-11-03'', cache_cast = c, cache_shown = True\<rparr>,
                       history = []\<rparr>,
              stdout = Some s, exit_code = 0\<rparr>
         \<and> main example_GUA True ''2026-11-03'' example_entropy nonrecord_store =
             \<lparr>store = \<lparr>cache_file =
                         Stored \<lparr>cache_date = ''2026-11-03'', cache_cast = c, cache_shown = True\<rparr>,
                       history = []\<rparr>,
              stdout = Some s, exit_code = 0\<rparr>"
    by (rule example_recoveries)
qed

lemma store_unchanged: "cache_file st = Stored c \<Longrightarrow> st\<lparr>cache_file := Stored c\<rparr> = st"
  by (cases st) simp

lemma main_try_same_day:
  assumes "cache_file st = Stored c" and "cache_date c = date" and "cache_shown c"
  shows "main_try G stdin_json date ent st =
           (if \<not> stdin_json then (st, None)
            else (case reveal G (cache_cast c) ent of
                    None \<Rightarrow> (st, None)
                  | Some out \<Rightarrow> (st\<lparr>cache_file := Stored c\<rparr>, Some out)))"
  using assms
  by (simp add: main_try_def load_cache_def new_day_def show_or_reveal_def
        split: option.splits)

lemma reveal_silent:
  "select_action b = Silent \<Longrightarrow> reveal G cast (b # rest) = Some None"
  by (simp add: reveal_def randomBytes_def)

text \<open>
  On a same-day invocation with the record already shown, the first entropy byte picks
  the branch: what \<open>out\<close> holds when the block reaches the write.
\<close>

lemma same_day_selection:
  assumes "cache_file st = Stored c" and "cache_date c = date" and "cache_shown c"
  shows "snd (main_try G True date (b # rest) st) =
           (case select_action b of
              ShowReading style \<Rightarrow> map_option Some (formatReading G (cache_cast c) style)
            | ShowDerived ty \<Rightarrow>
                map_option (\<lambda>r. if ty = Becoming \<and> fst r = [] then None else Some (fst r))
                  (formatDerived G (cache_cast c) ty rest)
            | Silent \<Rightarrow> Some None)"
  unfolding main_try_same_day [OF assms]
  by (auto simp: reveal_def randomBytes_def map_option_case split_def
      split: option.splits Action.splits DerivedType.splits bind_splits)

text \<open>
  C10. On every invocation that finds a stored record dated today with the shown flag
  set, the store after the invocation is the store before it: the cache slot holds the
  loaded record and the history is as it was. Whenever the block reaches the write, the
  record it writes is the loaded one; a silent draw reaches the write.
\<close>

theorem same_day_frame:
  assumes "cache_file st = Stored c" and "cache_date c = date" and "cache_shown c"
  shows "store (main G stdin_json date ent st) = st
       \<and> cache_file (store (main G stdin_json date ent st)) = Stored c
       \<and> history (store (main G stdin_json date ent st)) = history st
       \<and> (\<forall>out. snd (main_try G stdin_json date ent st) = Some out \<longrightarrow>
             fst (main_try G stdin_json date ent st) = st\<lparr>cache_file := Stored c\<rparr>)
       \<and> (\<forall>b rest. stdin_json \<and> ent = b # rest \<and> select_action b = Silent \<longrightarrow>
             main_try G stdin_json date ent st = (st\<lparr>cache_file := Stored c\<rparr>, Some None))"
proof -
  note m = main_try_same_day [OF assms, of G stdin_json ent]
  note u = store_unchanged [OF assms(1)]
  have 1: "store (main G stdin_json date ent st) = st"
    unfolding main_def m u by (simp split: option.splits)
  have 2: "\<forall>out. snd (main_try G stdin_json date ent st) = Some out \<longrightarrow>
             fst (main_try G stdin_json date ent st) = st\<lparr>cache_file := Stored c\<rparr>"
    unfolding m by (simp split: option.splits)
  have 3: "\<forall>b rest. stdin_json \<and> ent = b # rest \<and> select_action b = Silent \<longrightarrow>
             main_try G stdin_json date ent st = (st\<lparr>cache_file := Stored c\<rparr>, Some None)"
    unfolding m by (auto simp: reveal_silent)
  from 1 2 3 assms(1) show ?thesis by simp
qed

theorem same_day_frame_witness:
  "cache_file example_store = Stored example_old \<and> cache_date example_old = ''2026-11-02''
   \<and> cache_shown example_old
   \<and> store (main example_GUA True ''2026-11-02'' [66, 3] example_store) = example_store
   \<and> stdout (main example_GUA True ''2026-11-02'' [66, 3] example_store) \<noteq> None
   \<and> select_action 200 = Silent
   \<and> main_try example_GUA True ''2026-11-02'' [200] example_store = (example_store, Some None)"
proof -
  have h: "cache_file example_store = Stored example_old"
    "cache_date example_old = ''2026-11-02''" "cache_shown example_old"
    by (simp_all add: example_store_def example_old_def)
  have s: "select_action 200 = Silent" by (simp add: select_action_band band_table_def)
  have o: "stdout (main example_GUA True ''2026-11-02'' [66, 3] example_store) \<noteq> None"
    by code_simp
  note t1 = same_day_frame [OF h, of example_GUA True "[66, 3]"]
  note t2 = same_day_frame [OF h, of example_GUA True "[200]"]
  from t2 s have "main_try example_GUA True ''2026-11-02'' [200] example_store
      = (example_store\<lparr>cache_file := Stored example_old\<rparr>, Some None)" by blast
  then have "main_try example_GUA True ''2026-11-02'' [200] example_store = (example_store, Some None)"
    by (simp add: store_unchanged [OF h(1)])
  with t1 h s o show ?thesis by simp
qed

end
